theory Spec2Isabelle
  imports Complex_Main "HOL-Library.Word"
begin

section \<open>The reactor network driver (ReactorNet.cpp)\<close>

text \<open>
  The embedding follows \<^verbatim>\<open>Cantera/src/zeroD/ReactorNet.cpp\<close> member by member.
  Conventions:
  \<^item> a C++ \<^verbatim>\<open>int\<close> is an \<^typ>\<open>int\<close>. Signed overflow is undefined in C++, so
    the model speaks about runs in which the counters stay in range;
  \<^item> a \<^verbatim>\<open>doublereal\<close> is a \<^typ>\<open>real\<close>: the network only copies, compares with
    zero and subtracts times, and nothing below depends on rounding;
  \<^item> a \<^verbatim>\<open>doublereal*\<close> is a buffer together with an element offset, so that
    \<^verbatim>\<open>y + start\<close> is the same buffer seen from offset \<^verbatim>\<open>start\<close>;
  \<^item> reactors are objects behind pointers: a reactor is a handle, and the objects
    themselves live in a world \<^typ>\<open>'w\<close> that only the collaborators interpret;
  \<^item> a C++ exception, the termination of the process and an access outside a
    \<^verbatim>\<open>std::vector\<close> are values of type \<open>fault\<close>; a call returns
    \<open>fault + result\<close>.
\<close>

subsection \<open>Values\<close>

text \<open>
  What the logging functions receive: a line of text; the arguments of a formatted
  line (\<^verbatim>\<open>"Reactor %d: %d variables.\n"\<close>, \<^verbatim>\<open>"            %d sensitivity params.\n"\<close>,
  \<^verbatim>\<open>"Number of equations: %d\n"\<close>, \<^verbatim>\<open>"Maximum time step:   %14.6g\n"\<close>); the report of
  \<^verbatim>\<open>showErrors\<close>; the message of \<^verbatim>\<open>error\<close>.
\<close>

datatype log_entry =
    Writelog string
  | LogReactorVars int int
  | LogSensParams int
  | LogNumEquations int
  | LogMaxTimeStep real
  | ShowErrors
  | ErrorMsg string

text \<open>
  How a call ends other than by returning: an exception (\<^verbatim>\<open>CanteraError\<close> and
  \<^verbatim>\<open>NotImplementedError\<close> with procedure and message, or any other one), the
  termination of the process with everything logged until then, or an element access
  outside a vector, which C++ leaves undefined.
\<close>

datatype fault =
    CanteraError string string
  | NotImplementedError string string
  | OtherException string
  | Terminated "log_entry list"
  | OutOfRange

text \<open>What a \<^verbatim>\<open>catch (...)\<close> clause catches: the C++ exceptions.\<close>

fun is_exception :: "fault \<Rightarrow> bool" where
  "is_exception (CanteraError proc msg) = True"
| "is_exception (NotImplementedError proc msg) = True"
| "is_exception (OtherException msg) = True"
| "is_exception (Terminated l) = False"
| "is_exception OutOfRange = False"

type_synonym handle = nat
type_synonym buffer = "real list"
type_synonym ptr = "buffer \<times> int"

text \<open>Pointer arithmetic \<^verbatim>\<open>y + start\<close>.\<close>

definition ptr_add :: "ptr \<Rightarrow> int \<Rightarrow> ptr" where
  "ptr_add y k = (fst y, snd y + k)"

text \<open>\<^verbatim>\<open>v[n]\<close> on a \<^verbatim>\<open>std::vector\<close>, with the access outside the vector made a fault.\<close>

definition vec_at :: "'a list \<Rightarrow> int \<Rightarrow> fault + 'a" where
  "vec_at v n = (if 0 \<le> n \<and> n < int (length v) then Inr (v ! nat n) else Inl OutOfRange)"

subsection \<open>Collaborators: Reactor, Integrator, FuncEval\<close>

text \<open>
  The evaluator interface (base class \<^verbatim>\<open>FuncEval\<close>) that the network hands to its
  integrator with \<^verbatim>\<open>*this\<close>.
\<close>

record 'w FuncEval =
  fe_neq :: int
  fe_eval :: "real \<Rightarrow> ptr \<Rightarrow> ptr \<Rightarrow> ptr \<Rightarrow> 'w \<Rightarrow> fault + (buffer \<times> 'w)"
  fe_getInitialConditions :: "real \<Rightarrow> nat \<Rightarrow> ptr \<Rightarrow> 'w \<Rightarrow> fault + (buffer \<times> 'w)"

text \<open>
  The classes \<^verbatim>\<open>Reactor\<close> and \<^verbatim>\<open>Integrator\<close>, the constants \<^verbatim>\<open>ReactorType\<close>,
  \<^verbatim>\<open>FlowReactorType\<close>, \<^verbatim>\<open>BDF_Method\<close>, \<^verbatim>\<open>DENSE\<close>, \<^verbatim>\<open>NOJAC\<close>, \<^verbatim>\<open>Newton_Iter\<close>, the
  default argument of \<^verbatim>\<open>initialize\<close> and the flag \<^verbatim>\<open>DEBUG_MODE\<close> come from headers
  outside these sources. They are parameters of the model: every method the network
  calls is a field, a function of the receiving object and of the world.
  A method that writes through a pointer returns the buffer as it has left it.
  Sizes and counts reported by a reactor are natural numbers.
\<close>

record ('w, 'i) collaborators =
  ReactorType :: int
  FlowReactorType :: int
  Reactor_type :: "handle \<Rightarrow> int"
  Reactor_initialize :: "handle \<Rightarrow> real \<Rightarrow> 'w \<Rightarrow> fault + 'w"
  Reactor_neq :: "handle \<Rightarrow> 'w \<Rightarrow> nat"
  Reactor_nSensParams :: "handle \<Rightarrow> 'w \<Rightarrow> nat"
  Reactor_evalEqs :: "handle \<Rightarrow> real \<Rightarrow> ptr \<Rightarrow> ptr \<Rightarrow> ptr \<Rightarrow> 'w \<Rightarrow> fault + (buffer \<times> 'w)"
  Reactor_updateState :: "handle \<Rightarrow> ptr \<Rightarrow> 'w \<Rightarrow> fault + 'w"
  Reactor_getInitialConditions :: "handle \<Rightarrow> real \<Rightarrow> int \<Rightarrow> ptr \<Rightarrow> 'w \<Rightarrow> fault + (buffer \<times> 'w)"
  Reactor_componentIndex :: "handle \<Rightarrow> string \<Rightarrow> 'w \<Rightarrow> fault + int"
  newIntegrator :: "string \<Rightarrow> 'i"
  BDF_Method :: int
  DENSE :: int
  NOJAC :: int
  Newton_Iter :: int
  DEBUG_MODE :: bool
  Integrator_setMethod :: "int \<Rightarrow> 'i \<Rightarrow> 'i"
  Integrator_setProblemType :: "int \<Rightarrow> 'i \<Rightarrow> 'i"
  Integrator_setIterator :: "int \<Rightarrow> 'i \<Rightarrow> 'i"
  Integrator_setTolerances :: "real \<Rightarrow> int \<Rightarrow> real list \<Rightarrow> 'i \<Rightarrow> 'i"
  Integrator_setSensitivityTolerances :: "real \<Rightarrow> real \<Rightarrow> 'i \<Rightarrow> 'i"
  Integrator_setMaxStepSize :: "real \<Rightarrow> 'i \<Rightarrow> 'i"
  Integrator_initialize :: "real \<Rightarrow> 'w FuncEval \<Rightarrow> 'i \<Rightarrow> 'w \<Rightarrow> fault + ('i \<times> 'w)"
  Integrator_integrate :: "real \<Rightarrow> 'w FuncEval \<Rightarrow> 'i \<Rightarrow> 'w \<Rightarrow> fault + ('i \<times> 'w)"
  Integrator_step :: "real \<Rightarrow> 'w FuncEval \<Rightarrow> 'i \<Rightarrow> 'w \<Rightarrow> fault + (real \<times> 'i \<times> 'w)"
  Integrator_solution :: "'i \<Rightarrow> buffer"
  initialize_t0 :: real

subsection \<open>The network\<close>

text \<open>
  The data members of \<^verbatim>\<open>ReactorNet\<close>, as the constructor's initialiser list and the
  member functions name them. \<open>logged\<close> is what \<^verbatim>\<open>writelog\<close> has received.
\<close>

record 'i ReactorNet =
  m_r :: "handle list"
  m_nr :: int
  m_reactors :: "handle list"
  m_nreactors :: int
  m_integ :: 'i
  m_time :: real
  m_init :: bool
  m_nv :: int
  m_size :: "int list"
  m_nparams :: "int list"
  m_atol :: "real list"
  m_rtol :: real
  m_rtolsens :: real
  m_atols :: real
  m_atolsens :: real
  m_maxstep :: real
  m_verbose :: bool
  m_ntotpar :: int
  logged :: "log_entry list"

text \<open>\<^verbatim>\<open>ReactorNet::updateState\<close>, lines 135 to 142: the loop, then the member.\<close>

function updateState_loop ::
  "('w, 'i) collaborators \<Rightarrow> 'i ReactorNet \<Rightarrow> ptr \<Rightarrow> int \<Rightarrow> int \<Rightarrow> 'w \<Rightarrow> fault + 'w" where
  "updateState_loop env net y n start w =
     (if n < m_nreactors net then
        (case vec_at (m_reactors net) n of
           Inl e \<Rightarrow> Inl e
         | Inr r \<Rightarrow>
           (case Reactor_updateState env r (ptr_add y start) w of
              Inl e \<Rightarrow> Inl e
            | Inr w' \<Rightarrow>
              (case vec_at (m_size net) n of
                 Inl e \<Rightarrow> Inl e
               | Inr sz \<Rightarrow> updateState_loop env net y (n + 1) (start + sz) w')))
      else Inr w)"
  by pat_completeness auto
termination
  by (relation "measure (\<lambda>(env, net, y, n, start, w). nat (m_nreactors net - n))") auto

declare updateState_loop.simps [simp del]

definition updateState :: "('w, 'i) collaborators \<Rightarrow> 'i ReactorNet \<Rightarrow> ptr \<Rightarrow> 'w \<Rightarrow> fault + 'w" where
  "updateState env net y w = updateState_loop env net y 0 0 w"

text \<open>\<^verbatim>\<open>ReactorNet::getInitialConditions\<close>, lines 144 to 152. \<^verbatim>\<open>leny\<close> is not read.\<close>

function getInitialConditions_loop ::
  "('w, 'i) collaborators \<Rightarrow> 'i ReactorNet \<Rightarrow> real \<Rightarrow> ptr \<Rightarrow> int \<Rightarrow> int \<Rightarrow> 'w
     \<Rightarrow> fault + (buffer \<times> 'w)" where
  "getInitialConditions_loop env net t0 y n start w =
     (if n < m_nreactors net then
        (case vec_at (m_reactors net) n of
           Inl e \<Rightarrow> Inl e
         | Inr r \<Rightarrow>
           (case vec_at (m_size net) n of
              Inl e \<Rightarrow> Inl e
            | Inr sz \<Rightarrow>
              (case Reactor_getInitialConditions env r t0 sz (ptr_add y start) w of
                 Inl e \<Rightarrow> Inl e
               | Inr (b, w') \<Rightarrow>
                   getInitialConditions_loop env net t0 (b, snd y) (n + 1) (start + sz) w')))
      else Inr (fst y, w))"
  by pat_completeness auto
termination
  by (relation "measure (\<lambda>(env, net, t0, y, n, start, w). nat (m_nreactors net - n))") auto

declare getInitialConditions_loop.simps [simp del]

definition getInitialConditions ::
  "('w, 'i) collaborators \<Rightarrow> 'i ReactorNet \<Rightarrow> real \<Rightarrow> nat \<Rightarrow> ptr \<Rightarrow> 'w \<Rightarrow> fault + (buffer \<times> 'w)" where
  "getInitialConditions env net t0 leny y w = getInitialConditions_loop env net t0 y 0 0 w"

text \<open>
  Modelled from the spec: \<^verbatim>\<open>showErrors()\<close> and \<^verbatim>\<open>error(msg)\<close> are functions of Cantera's
  global interface, outside these sources. The spec has the failure reported through
  the error-reporting collaborator and the run aborted as unrecoverable:
  \<open>showErrors\<close> writes the pending error report, \<open>error\<close> writes its message and
  terminates the process, which is the fault \<open>Terminated\<close> with everything logged.
\<close>

definition showErrors :: "log_entry list \<Rightarrow> log_entry list" where
  "showErrors l = l @ [ShowErrors]"

definition error :: "string \<Rightarrow> log_entry list \<Rightarrow> fault + 'a" where
  "error msg l = Inl (Terminated (l @ [ErrorMsg msg]))"

text \<open>
  \<^verbatim>\<open>ReactorNet::eval\<close>, lines 113 to 133: the loop of the \<^verbatim>\<open>try\<close> block, the
  \<^verbatim>\<open>try\<close> block, and the member with its \<^verbatim>\<open>catch (...)\<close> clause.
\<close>

function eval_loop ::
  "('w, 'i) collaborators \<Rightarrow> 'i ReactorNet \<Rightarrow> real \<Rightarrow> ptr \<Rightarrow> ptr \<Rightarrow> ptr \<Rightarrow> int \<Rightarrow> int \<Rightarrow> int \<Rightarrow> 'w
     \<Rightarrow> fault + (buffer \<times> 'w)" where
  "eval_loop env net t y ydot p n start pstart w =
     (if n < m_nreactors net then
        (case vec_at (m_reactors net) n of
           Inl e \<Rightarrow> Inl e
         | Inr r \<Rightarrow>
           (case Reactor_evalEqs env r t (ptr_add y start) (ptr_add ydot start) (ptr_add p pstart) w of
              Inl e \<Rightarrow> Inl e
            | Inr (b, w') \<Rightarrow>
              (case vec_at (m_size net) n of
                 Inl e \<Rightarrow> Inl e
               | Inr sz \<Rightarrow>
                 (case vec_at (m_nparams net) n of
                    Inl e \<Rightarrow> Inl e
                  | Inr np \<Rightarrow>
                      eval_loop env net t y (b, snd ydot) p (n + 1) (start + sz) (pstart + np) w'))))
      else Inr (fst ydot, w))"
  by pat_completeness auto
termination
  by (relation "measure (\<lambda>(env, net, t, y, ydot, p, n, start, pstart, w). nat (m_nreactors net - n))")
    auto

declare eval_loop.simps [simp del]

definition eval_try ::
  "('w, 'i) collaborators \<Rightarrow> 'i ReactorNet \<Rightarrow> real \<Rightarrow> ptr \<Rightarrow> ptr \<Rightarrow> ptr \<Rightarrow> 'w \<Rightarrow> fault + (buffer \<times> 'w)" where
  "eval_try env net t y ydot p w =
     (case updateState env net y w of
        Inl e \<Rightarrow> Inl e
      | Inr w' \<Rightarrow> eval_loop env net t y ydot p 0 0 0 w')"

definition eval ::
  "('w, 'i) collaborators \<Rightarrow> 'i ReactorNet \<Rightarrow> real \<Rightarrow> ptr \<Rightarrow> ptr \<Rightarrow> ptr \<Rightarrow> 'w \<Rightarrow> fault + (buffer \<times> 'w)" where
  "eval env net t y ydot p w =
     (case eval_try env net t y ydot p w of
        Inl e \<Rightarrow>
          (if is_exception e
           then error ''Terminating execution.'' (showErrors (logged net))
           else Inl e)
      | Inr r \<Rightarrow> Inr r)"

text \<open>\<^verbatim>\<open>ReactorNet::globalComponentIndex\<close>, lines 154 to 159.\<close>

function globalComponentIndex_loop :: "'i ReactorNet \<Rightarrow> int \<Rightarrow> int \<Rightarrow> int \<Rightarrow> fault + (int \<times> int)" where
  "globalComponentIndex_loop net reactor n start =
     (if n < reactor then
        (case vec_at (m_size net) n of
           Inl e \<Rightarrow> Inl e
         | Inr sz \<Rightarrow> globalComponentIndex_loop net reactor (n + 1) (start + sz))
      else Inr (n, start))"
  by pat_completeness auto
termination
  by (relation "measure (\<lambda>(net, reactor, n, start). nat (reactor - n))") auto

declare globalComponentIndex_loop.simps [simp del]

definition globalComponentIndex ::
  "('w, 'i) collaborators \<Rightarrow> 'i ReactorNet \<Rightarrow> string \<Rightarrow> int \<Rightarrow> 'w \<Rightarrow> fault + int" where
  "globalComponentIndex env net species reactor w =
     (case globalComponentIndex_loop net reactor 0 0 of
        Inl e \<Rightarrow> Inl e
      | Inr (n, start) \<Rightarrow>
        (case vec_at (m_reactors net) n of
           Inl e \<Rightarrow> Inl e
         | Inr r \<Rightarrow>
           (case Reactor_componentIndex env r species w of
              Inl e \<Rightarrow> Inl e
            | Inr k \<Rightarrow> Inr (start + k))))"

text \<open>
  Modelled from the spec: \<^verbatim>\<open>neq()\<close> of the network is declared in \<^verbatim>\<open>ReactorNet.h\<close>,
  outside these sources; it is the total equation count.
\<close>

definition neq :: "'i ReactorNet \<Rightarrow> int" where
  "neq net = m_nv net"

text \<open>The network as the evaluator its integrator calls back.\<close>

definition funcEval :: "('w, 'i) collaborators \<Rightarrow> 'i ReactorNet \<Rightarrow> 'w FuncEval" where
  "funcEval env net =
     \<lparr> fe_neq = neq net,
       fe_eval = eval env net,
       fe_getInitialConditions = getInitialConditions env net \<rparr>"

text \<open>\<^verbatim>\<open>writelog\<close>, when \<^verbatim>\<open>m_verbose\<close> is set.\<close>

definition verbose_log :: "log_entry list \<Rightarrow> 'i ReactorNet \<Rightarrow> 'i ReactorNet" where
  "verbose_log es net = (if m_verbose net then net\<lparr>logged := logged net @ es\<rparr> else net)"

text \<open>
  \<^verbatim>\<open>ReactorNet::initialize\<close>, lines 26 to 73. First the loop over the registered
  handles (lines 35 to 58); the formatted lines of the log are kept as their
  arguments.
\<close>

function initialize_loop ::
  "('w, 'i) collaborators \<Rightarrow> real \<Rightarrow> int \<Rightarrow> 'i ReactorNet \<Rightarrow> 'w \<Rightarrow> fault + ('i ReactorNet \<times> 'w)" where
  "initialize_loop env t0 n net w =
     (if n < m_nr net then
        (case vec_at (m_r net) n of
           Inl e \<Rightarrow> Inl e
         | Inr r \<Rightarrow>
           if Reactor_type env r \<ge> ReactorType env then
             (case Reactor_initialize env r t0 w of
                Inl e \<Rightarrow> Inl e
              | Inr w' \<Rightarrow>
                (let nv = int (Reactor_neq env r w');
                     net1 = net\<lparr>m_reactors := m_reactors net @ [r]\<rparr>;
                     net2 = net1\<lparr>m_size := m_size net1 @ [nv]\<rparr>;
                     net3 = net2\<lparr>m_nparams := m_nparams net2 @ [int (Reactor_nSensParams env r w')]\<rparr>;
                     net4 = net3\<lparr>m_ntotpar := m_ntotpar net3 + int (Reactor_nSensParams env r w')\<rparr>;
                     net5 = net4\<lparr>m_nv := m_nv net4 + nv\<rparr>;
                     net6 = net5\<lparr>m_nreactors := m_nreactors net5 + 1\<rparr>;
                     net7 = verbose_log
                       [LogReactorVars n nv, LogSensParams (int (Reactor_nSensParams env r w'))] net6
                 in if Reactor_type env r = FlowReactorType env \<and> m_nr net7 > 1
                    then Inl (CanteraError ''ReactorNet::initialize'' ''FlowReactors must be used alone.'')
                    else initialize_loop env t0 (n + 1) net7 w'))
           else initialize_loop env t0 (n + 1) net w)
      else Inr (net, w))"
  by pat_completeness auto
termination
  by (relation "measure (\<lambda>(env, t0, n, net, w). nat (m_nr net - n))")
    (auto simp: verbose_log_def Let_def)

declare initialize_loop.simps [simp del]

text \<open>Lines 29 to 34: what \<^verbatim>\<open>initialize\<close> resets before the loop.\<close>

definition initialize_reset :: "'i ReactorNet \<Rightarrow> 'i ReactorNet" where
  "initialize_reset net =
     (let net1 = net\<lparr>m_nv := 0\<rparr>;
          net2 = net1\<lparr>m_reactors := []\<rparr>;
          net3 = net2\<lparr>m_nreactors := 0\<rparr>
      in verbose_log [Writelog ''Initializing reactor network.\<newline>''] net3)"

text \<open>
  Lines 60 to 70: the tolerances and the maximum step size handed to the integrator.
  \<^verbatim>\<open>m_atol.resize(neq())\<close> followed by \<^verbatim>\<open>fill\<close> leaves \<^verbatim>\<open>neq()\<close> copies of \<^verbatim>\<open>m_atols\<close>; the
  count is not negative here, line 29 having reset it before the loop added sizes.
\<close>

definition initialize_integrator :: "('w, 'i) collaborators \<Rightarrow> 'i ReactorNet \<Rightarrow> 'i ReactorNet" where
  "initialize_integrator env net =
     (let net1 = net\<lparr>m_atol := replicate (nat (neq net)) (m_atols net)\<rparr>;
          net2 = net1\<lparr>m_integ :=
            Integrator_setTolerances env (m_rtol net1) (neq net1) (m_atol net1) (m_integ net1)\<rparr>;
          net3 = net2\<lparr>m_integ :=
            Integrator_setSensitivityTolerances env (m_rtolsens net2) (m_atolsens net2) (m_integ net2)\<rparr>;
          net4 = net3\<lparr>m_integ := Integrator_setMaxStepSize env (m_maxstep net3) (m_integ net3)\<rparr>
      in verbose_log [LogNumEquations (neq net4), LogMaxTimeStep (m_maxstep net4)] net4)"

text \<open>The member: reset, loop, integrator set-up, then lines 71 and 72.\<close>

definition initialize ::
  "('w, 'i) collaborators \<Rightarrow> real \<Rightarrow> 'i ReactorNet \<Rightarrow> 'w \<Rightarrow> fault + ('i ReactorNet \<times> 'w)" where
  "initialize env t0 net w =
     (case initialize_loop env t0 0 (initialize_reset net) w of
        Inl e \<Rightarrow> Inl e
      | Inr (net1, w') \<Rightarrow>
        (let net2 = initialize_integrator env net1
         in case Integrator_initialize env t0 (funcEval env net2) (m_integ net2) w' of
              Inl e \<Rightarrow> Inl e
            | Inr (integ, w'') \<Rightarrow> Inr (net2\<lparr>m_integ := integ, m_init := True\<rparr>, w'')))"

text \<open>
  \<^verbatim>\<open>ReactorNet::advance\<close>, lines 75 to 84, and \<^verbatim>\<open>ReactorNet::step\<close>, lines 86 to 95.
  Their common first statement (lines 76 to 80 and 87 to 91) is \<open>lazy_initialize\<close>.
\<close>

definition lazy_initialize ::
  "('w, 'i) collaborators \<Rightarrow> real \<Rightarrow> 'i ReactorNet \<Rightarrow> 'w \<Rightarrow> fault + ('i ReactorNet \<times> 'w)" where
  "lazy_initialize env time net w =
     (if \<not> m_init net then
        (let net1 = (if m_maxstep net < 0 then net\<lparr>m_maxstep := time - m_time net\<rparr> else net)
         in initialize env (initialize_t0 env) net1 w)
      else Inr (net, w))"

definition advance ::
  "('w, 'i) collaborators \<Rightarrow> real \<Rightarrow> 'i ReactorNet \<Rightarrow> 'w \<Rightarrow> fault + ('i ReactorNet \<times> 'w)" where
  "advance env time net w =
     (case lazy_initialize env time net w of
        Inl e \<Rightarrow> Inl e
      | Inr (net1, w1) \<Rightarrow>
        (case Integrator_integrate env time (funcEval env net1) (m_integ net1) w1 of
           Inl e \<Rightarrow> Inl e
         | Inr (integ, w2) \<Rightarrow>
           (let net2 = net1\<lparr>m_integ := integ\<rparr>;
                net3 = net2\<lparr>m_time := time\<rparr>
            in case updateState env net3 (Integrator_solution env (m_integ net3), 0) w2 of
                 Inl e \<Rightarrow> Inl e
               | Inr w3 \<Rightarrow> Inr (net3, w3))))"

definition step ::
  "('w, 'i) collaborators \<Rightarrow> real \<Rightarrow> 'i ReactorNet \<Rightarrow> 'w \<Rightarrow> fault + (real \<times> 'i ReactorNet \<times> 'w)" where
  "step env time net w =
     (case lazy_initialize env time net w of
        Inl e \<Rightarrow> Inl e
      | Inr (net1, w1) \<Rightarrow>
        (case Integrator_step env time (funcEval env net1) (m_integ net1) w1 of
           Inl e \<Rightarrow> Inl e
         | Inr (reached, integ, w2) \<Rightarrow>
           (let net2 = net1\<lparr>m_integ := integ\<rparr>;
                net3 = net2\<lparr>m_time := reached\<rparr>
            in case updateState env net3 (Integrator_solution env (m_integ net3), 0) w2 of
                 Inl e \<Rightarrow> Inl e
               | Inr w3 \<Rightarrow> Inr (m_time net3, net3, w3))))"

text \<open>The constructor, lines 6 to 24.\<close>

definition ReactorNet_new :: "('w, 'i) collaborators \<Rightarrow> 'i ReactorNet" where
  "ReactorNet_new env =
     \<lparr> m_r = [], m_nr = 0, m_reactors = [], m_nreactors = 0,
       m_integ =
         Integrator_setIterator env (Newton_Iter env)
           (Integrator_setProblemType env (DENSE env + NOJAC env)
              (Integrator_setMethod env (BDF_Method env) (newIntegrator env ''CVODE''))),
       m_time = 0, m_init = False, m_nv = 0, m_size = [], m_nparams = [], m_atol = [],
       m_rtol = 1 / 10 ^ 9, m_rtolsens = 1 / 10 ^ 4, m_atols = 1 / 10 ^ 15, m_atolsens = 1 / 10 ^ 4,
       m_maxstep = - 1, m_verbose = DEBUG_MODE env, m_ntotpar = 0, logged = [] \<rparr>"

text \<open>
  Modelled from the spec: registration of a reactor (\<^verbatim>\<open>addReactor\<close> of \<^verbatim>\<open>ReactorNet.h\<close>,
  outside these sources) appends the handle to the ordered collection of registered
  handles, whose length is \<^verbatim>\<open>m_nr\<close>.
\<close>

definition addReactor :: "handle \<Rightarrow> 'i ReactorNet \<Rightarrow> 'i ReactorNet" where
  "addReactor r net = net\<lparr>m_r := m_r net @ [r], m_nr := m_nr net + 1\<rparr>"

subsection \<open>The offsets as the specification words them\<close>

text \<open>
  Reactor \<open>i\<close>'s offset into the global buffer is the sum of the sizes of the reactors
  before it; scatter, gather and evaluation visit the reactors in registration
  order, each at its offset. These definitions follow the specification; the
  theorems compare them with the loops above.
\<close>

definition offset_of :: "int list \<Rightarrow> nat \<Rightarrow> int" where
  "offset_of sizes i = sum_list (take i sizes)"

definition scatter_at ::
  "('w, 'i) collaborators \<Rightarrow> handle list \<Rightarrow> int list \<Rightarrow> ptr \<Rightarrow> nat \<Rightarrow> fault + 'w \<Rightarrow> fault + 'w" where
  "scatter_at env rs sizes y i acc =
     (case acc of
        Inl e \<Rightarrow> Inl e
      | Inr w \<Rightarrow> Reactor_updateState env (rs ! i) (ptr_add y (offset_of sizes i)) w)"

definition scatter_spec ::
  "('w, 'i) collaborators \<Rightarrow> handle list \<Rightarrow> int list \<Rightarrow> nat \<Rightarrow> ptr \<Rightarrow> 'w \<Rightarrow> fault + 'w" where
  "scatter_spec env rs sizes k y w = fold (scatter_at env rs sizes y) [0..<k] (Inr w)"

definition gather_at ::
  "('w, 'i) collaborators \<Rightarrow> handle list \<Rightarrow> int list \<Rightarrow> real \<Rightarrow> int \<Rightarrow> nat
     \<Rightarrow> fault + (buffer \<times> 'w) \<Rightarrow> fault + (buffer \<times> 'w)" where
  "gather_at env rs sizes t0 off i acc =
     (case acc of
        Inl e \<Rightarrow> Inl e
      | Inr (b, w) \<Rightarrow>
          Reactor_getInitialConditions env (rs ! i) t0 (sizes ! i) (b, off + offset_of sizes i) w)"

definition gather_spec ::
  "('w, 'i) collaborators \<Rightarrow> handle list \<Rightarrow> int list \<Rightarrow> nat \<Rightarrow> real \<Rightarrow> ptr \<Rightarrow> 'w
     \<Rightarrow> fault + (buffer \<times> 'w)" where
  "gather_spec env rs sizes k t0 y w =
     fold (gather_at env rs sizes t0 (snd y)) [0..<k] (Inr (fst y, w))"

definition evalEqs_at ::
  "('w, 'i) collaborators \<Rightarrow> handle list \<Rightarrow> int list \<Rightarrow> int list \<Rightarrow> real \<Rightarrow> ptr \<Rightarrow> int \<Rightarrow> ptr \<Rightarrow> nat
     \<Rightarrow> fault + (buffer \<times> 'w) \<Rightarrow> fault + (buffer \<times> 'w)" where
  "evalEqs_at env rs sizes nparams t y doff p i acc =
     (case acc of
        Inl e \<Rightarrow> Inl e
      | Inr (b, w) \<Rightarrow>
          Reactor_evalEqs env (rs ! i) t
            (ptr_add y (offset_of sizes i))
            (b, doff + offset_of sizes i)
            (ptr_add p (offset_of nparams i)) w)"

definition eval_spec ::
  "('w, 'i) collaborators \<Rightarrow> handle list \<Rightarrow> int list \<Rightarrow> int list \<Rightarrow> nat \<Rightarrow> log_entry list
     \<Rightarrow> real \<Rightarrow> ptr \<Rightarrow> ptr \<Rightarrow> ptr \<Rightarrow> 'w \<Rightarrow> fault + (buffer \<times> 'w)" where
  "eval_spec env rs sizes nparams k l t y ydot p w =
     (case (case scatter_spec env rs sizes k y w of
              Inl e \<Rightarrow> Inl e
            | Inr w' \<Rightarrow>
                fold (evalEqs_at env rs sizes nparams t y (snd ydot) p) [0..<k] (Inr (fst ydot, w'))) of
        Inl e \<Rightarrow>
          (if is_exception e then Inl (Terminated (l @ [ShowErrors, ErrorMsg ''Terminating execution.'']))
           else Inl e)
      | Inr r \<Rightarrow> Inr r)"

text \<open>
  What initialisation records, reactor by reactor: a handle contributes if its type
  tag qualifies; a qualifying reactor is initialised and then asked for its size and
  its number of sensitivity parameters.
\<close>

definition qualifies :: "('w, 'i) collaborators \<Rightarrow> handle \<Rightarrow> bool" where
  "qualifies env r = (Reactor_type env r \<ge> ReactorType env)"

fun local_sizes :: "('w, 'i) collaborators \<Rightarrow> real \<Rightarrow> handle list \<Rightarrow> 'w \<Rightarrow> (nat \<times> nat) list" where
  "local_sizes env t0 [] w = []"
| "local_sizes env t0 (r # rs) w =
     (if qualifies env r then
        (case Reactor_initialize env r t0 w of
           Inl e \<Rightarrow> []
         | Inr w' \<Rightarrow> (Reactor_neq env r w', Reactor_nSensParams env r w') # local_sizes env t0 rs w')
      else local_sizes env t0 rs w)"

text \<open>
  The tables of a network are in step when each has an entry for every reactor of
  the list the loops run over.
\<close>

definition tables_cover :: "'i ReactorNet \<Rightarrow> bool" where
  "tables_cover net =
     (0 \<le> m_nreactors net
      \<and> nat (m_nreactors net) \<le> length (m_reactors net)
      \<and> nat (m_nreactors net) \<le> length (m_size net)
      \<and> nat (m_nreactors net) \<le> length (m_nparams net))"

text \<open>A network as the constructor and the registrations leave it.\<close>

definition registered :: "('w, 'i) collaborators \<Rightarrow> handle list \<Rightarrow> 'i ReactorNet" where
  "registered env rs = fold addReactor rs (ReactorNet_new env)"

text \<open>
  The contract of a reactor that the round trip of the state relies on. Writing the
  values \<open>vs\<close> through a pointer overwrites the buffer from the pointer's offset on.
  In the world \<open>w\<close> the reactor \<open>r\<close>, asked for \<open>n\<close> values, has the initial local
  state \<open>vs\<close>: its \<^verbatim>\<open>getInitialConditions\<close> writes \<open>vs\<close> at the pointer and leaves the
  world as it is, and its \<^verbatim>\<open>updateState\<close> from a buffer that holds \<open>vs\<close> at the
  pointer is the identity on the world.
\<close>

definition poke :: "int \<Rightarrow> real list \<Rightarrow> buffer \<Rightarrow> buffer" where
  "poke off vs b = take (nat off) b @ vs @ drop (nat off + length vs) b"

definition state_roundtrip ::
  "('w, 'i) collaborators \<Rightarrow> handle \<Rightarrow> int \<Rightarrow> real \<Rightarrow> 'w \<Rightarrow> real list \<Rightarrow> bool" where
  "state_roundtrip env r n t0 w vs =
     (0 \<le> n \<and> length vs = nat n
      \<and> (\<forall>b off. 0 \<le> off \<and> nat off + nat n \<le> length b \<longrightarrow>
             Reactor_getInitialConditions env r t0 n (b, off) w = Inr (poke off vs b, w))
      \<and> (\<forall>b off. 0 \<le> off \<and> take (nat n) (drop (nat off) b) = vs \<longrightarrow>
             Reactor_updateState env r (b, off) w = Inr w))"

section \<open>Delegates of methods with a return value (Delegator.h)\<close>

text \<open>
  A method \<^verbatim>\<open>std::function<ReturnType(Args ...)>\<close> maps its arguments and the state of
  the program to a result or a fault. A delegate
  \<^verbatim>\<open>std::function<int(ReturnType&, Args ...)>\<close> also receives the variable it may set
  and returns its \<^verbatim>\<open>int\<close> with what the variable then holds.
\<close>

type_synonym ('a, 'r, 's) std_function = "'a \<Rightarrow> 's \<Rightarrow> fault + ('r \<times> 's)"
type_synonym ('a, 'r, 's) delegate = "'r \<Rightarrow> 'a \<Rightarrow> 's \<Rightarrow> fault + ((int \<times> 'r) \<times> 's)"

text \<open>
  \<^verbatim>\<open>Delegator::makeDelegate\<close> for a function with a return value, lines 272 to 315.
  \<open>add\<close> is \<^verbatim>\<open>operator+\<close> of the return type and \<open>ret0\<close> what a declared local
  \<^verbatim>\<open>ReturnType ret;\<close> holds before the delegate runs.
\<close>

definition makeDelegate ::
  "('r \<Rightarrow> 'r \<Rightarrow> 'r) \<Rightarrow> 'r \<Rightarrow> ('a, 'r, 's) delegate \<Rightarrow> string \<Rightarrow> ('a, 'r, 's) std_function
     \<Rightarrow> fault + ('a, 'r, 's) std_function" where
  "makeDelegate add ret0 func when base =
     (if when = ''before'' then
        Inr (\<lambda>args s.
          case func ret0 args s of
            Inl e \<Rightarrow> Inl e
          | Inr ((done, ret), s1) \<Rightarrow> if done \<noteq> 0 then Inr (ret, s1) else base args s1)
      else if when = ''after'' then
        Inr (\<lambda>args s.
          case base args s of
            Inl e \<Rightarrow> Inl e
          | Inr (ret1, s1) \<Rightarrow>
            (case func ret0 args s1 of
               Inl e \<Rightarrow> Inl e
             | Inr ((done, ret2), s2) \<Rightarrow>
                 if done \<noteq> 0 then Inr (add ret1 ret2, s2) else Inr (ret1, s2)))
      else if when = ''replace'' then
        Inr (\<lambda>args s.
          case func ret0 args s of
            Inl e \<Rightarrow> Inl e
          | Inr ((done, ret), s1) \<Rightarrow> Inr (ret, s1))
      else
        Inl (CanteraError ''Delegator::makeDelegate''
              ([CHR 0x27] @ ''when' must be one of 'before', 'after', or 'replace'; not ''
                 @ [CHR 0x27] @ when)))"

text \<open>
  The two tables of delegatable methods with a return value, lines 330 to 339: for
  the signature \<^verbatim>\<open>string(size_t)\<close> and for \<^verbatim>\<open>size_t(const string&)\<close>. A \<^verbatim>\<open>size_t\<close> is
  a 64-bit word. \<^verbatim>\<open>m_funcs_...\<close> maps a name to the installed target, which the model
  keeps by value under the name.
\<close>

record 's Delegator =
  m_base_s_sz :: "string \<rightharpoonup> (64 word, string, 's) std_function"
  m_funcs_s_sz :: "string \<rightharpoonup> (64 word, string, 's) std_function"
  m_base_sz_csr :: "string \<rightharpoonup> (string, 64 word, 's) std_function"
  m_funcs_sz_csr :: "string \<rightharpoonup> (string, 64 word, 's) std_function"

text \<open>A default-constructed \<^verbatim>\<open>std::function\<close>: calling it throws.\<close>

definition empty_function :: "('a, 'r, 's) std_function" where
  "empty_function args s = Inl (OtherException ''std::bad_function_call'')"

text \<open>\<^verbatim>\<open>install\<close>, lines 223 to 241.\<close>

definition install_s_sz :: "string \<Rightarrow> (64 word, string, 's) std_function \<Rightarrow> 's Delegator \<Rightarrow> 's Delegator" where
  "install_s_sz name base d =
     d\<lparr>m_funcs_s_sz := (m_funcs_s_sz d)(name \<mapsto> base), m_base_s_sz := (m_base_s_sz d)(name \<mapsto> base)\<rparr>"

definition install_sz_csr :: "string \<Rightarrow> (string, 64 word, 's) std_function \<Rightarrow> 's Delegator \<Rightarrow> 's Delegator" where
  "install_sz_csr name base d =
     d\<lparr>m_funcs_sz_csr := (m_funcs_sz_csr d)(name \<mapsto> base), m_base_sz_csr := (m_base_sz_csr d)(name \<mapsto> base)\<rparr>"

text \<open>
  \<^verbatim>\<open>setDelegate\<close> for the two signatures, lines 134 to 158. \<^verbatim>\<open>m_base_...[name]\<close> is
  \<^verbatim>\<open>std::map::operator[]\<close>, which enters a default-constructed function under a name
  it does not hold. A local \<^verbatim>\<open>std::string ret;\<close> is empty; a local \<^verbatim>\<open>size_t ret;\<close>
  holds an indeterminate value, the argument \<open>junk\<close>.
\<close>

definition setDelegate_s_sz ::
  "string \<Rightarrow> (64 word, string, 's) delegate \<Rightarrow> string \<Rightarrow> 's Delegator \<Rightarrow> fault + 's Delegator" where
  "setDelegate_s_sz name func when d =
     (if m_funcs_s_sz d name = None then
        Inl (NotImplementedError ''Delegator::setDelegate''
              (''for function named '' @ [CHR 0x27] @ name @ [CHR 0x27]
                 @ '' with signature 'string(size_t)'.''))
      else
        (let base = (case m_base_s_sz d name of None \<Rightarrow> empty_function | Some b \<Rightarrow> b);
             d1 = d\<lparr>m_base_s_sz := (m_base_s_sz d)(name \<mapsto> base)\<rparr>
         in case makeDelegate (@) [] func when base of
              Inl e \<Rightarrow> Inl e
            | Inr f \<Rightarrow> Inr (d1\<lparr>m_funcs_s_sz := (m_funcs_s_sz d1)(name \<mapsto> f)\<rparr>)))"

definition setDelegate_sz_csr ::
  "64 word \<Rightarrow> string \<Rightarrow> (string, 64 word, 's) delegate \<Rightarrow> string \<Rightarrow> 's Delegator
     \<Rightarrow> fault + 's Delegator" where
  "setDelegate_sz_csr junk name func when d =
     (if m_funcs_sz_csr d name = None then
        Inl (NotImplementedError ''Delegator::setDelegate''
              (''for function named '' @ [CHR 0x27] @ name @ [CHR 0x27]
                 @ '' with signature 'size_t(const string&)'.''))
      else
        (let base = (case m_base_sz_csr d name of None \<Rightarrow> empty_function | Some b \<Rightarrow> b);
             d1 = d\<lparr>m_base_sz_csr := (m_base_sz_csr d)(name \<mapsto> base)\<rparr>
         in case makeDelegate (+) junk func when base of
              Inl e \<Rightarrow> Inl e
            | Inr f \<Rightarrow> Inr (d1\<lparr>m_funcs_sz_csr := (m_funcs_sz_csr d1)(name \<mapsto> f)\<rparr>)))"

section \<open>A concrete set of collaborators\<close>

text \<open>
  The scenarios of the specification need reactors and an integrator to run with.
  The world is the list of the reactors' local state vectors, indexed by handle.
  Handles 0, 1 and 4 are ordinary reactors, handle 2 is a flow reactor, handle 3 a
  reservoir, which does not qualify; the reactor with handle 4 fails when its
  equations are evaluated. Reactor \<open>r\<close> has \<open>r + 1\<close> sensitivity parameters and knows
  the components \<open>U\<close> at 0 and \<open>X\<close> at 1. The integrator is its solution vector and
  the maximum step size it was given; it fetches the initial conditions when it is
  initialised, evaluates the right-hand side once per call, and a single step
  reaches half the requested time (the requested time itself when that is negative).
\<close>

definition demo_type :: "handle \<Rightarrow> int" where
  "demo_type r = (if r = 2 then 3 else if r = 3 then 1 else 2)"

definition demo_evalEqs ::
  "handle \<Rightarrow> real \<Rightarrow> ptr \<Rightarrow> ptr \<Rightarrow> ptr \<Rightarrow> real list list \<Rightarrow> fault + (buffer \<times> real list list)" where
  "demo_evalEqs r t y ydot p w =
     (if r = 4 then Inl (CanteraError ''Reactor::evalEqs'' ''rate evaluation failed'')
      else Inr (poke (snd ydot) (map uminus (take (length (w ! r)) (drop (nat (snd y)) (fst y)))) (fst ydot), w))"

definition demo_updateState :: "handle \<Rightarrow> ptr \<Rightarrow> real list list \<Rightarrow> fault + real list list" where
  "demo_updateState r y w = Inr (w[r := take (length (w ! r)) (drop (nat (snd y)) (fst y))])"

definition demo_getInitialConditions ::
  "handle \<Rightarrow> real \<Rightarrow> int \<Rightarrow> ptr \<Rightarrow> real list list \<Rightarrow> fault + (buffer \<times> real list list)" where
  "demo_getInitialConditions r t0 n y w = Inr (poke (snd y) (w ! r) (fst y), w)"

definition demo_componentIndex :: "handle \<Rightarrow> string \<Rightarrow> real list list \<Rightarrow> fault + int" where
  "demo_componentIndex r name w =
     (if name = ''U'' then Inr 0
      else if name = ''X'' then Inr 1
      else Inl (CanteraError ''Reactor::componentIndex'' ''unknown component''))"

definition demo_initialize ::
  "real \<Rightarrow> real list list FuncEval \<Rightarrow> buffer \<times> real \<Rightarrow> real list list
     \<Rightarrow> fault + ((buffer \<times> real) \<times> real list list)" where
  "demo_initialize t0 fe i w =
     (case fe_getInitialConditions fe t0 (nat (fe_neq fe)) (map (\<lambda>k. 0) [0..<nat (fe_neq fe)], 0) w of
        Inl e \<Rightarrow> Inl e
      | Inr (b, w') \<Rightarrow> Inr ((b, snd i), w'))"

definition demo_integrate ::
  "real \<Rightarrow> real list list FuncEval \<Rightarrow> buffer \<times> real \<Rightarrow> real list list
     \<Rightarrow> fault + ((buffer \<times> real) \<times> real list list)" where
  "demo_integrate time fe i w =
     (case fe_eval fe time (fst i, 0) (fst i, 0) ([], 0) w of
        Inl e \<Rightarrow> Inl e
      | Inr (b, w') \<Rightarrow> Inr ((b, snd i), w'))"

definition demo_step ::
  "real \<Rightarrow> real list list FuncEval \<Rightarrow> buffer \<times> real \<Rightarrow> real list list
     \<Rightarrow> fault + (real \<times> (buffer \<times> real) \<times> real list list)" where
  "demo_step time fe i w =
     (case fe_eval fe time (fst i, 0) (fst i, 0) ([], 0) w of
        Inl e \<Rightarrow> Inl e
      | Inr (b, w') \<Rightarrow> Inr (min time (time / 2), (b, snd i), w'))"

definition demo_env :: "(real list list, buffer \<times> real) collaborators" where
  "demo_env =
     \<lparr> ReactorType = 2, FlowReactorType = 3,
       Reactor_type = demo_type,
       Reactor_initialize = (\<lambda>r t0 w. Inr w),
       Reactor_neq = (\<lambda>r w. length (w ! r)),
       Reactor_nSensParams = (\<lambda>r w. Suc r),
       Reactor_evalEqs = demo_evalEqs,
       Reactor_updateState = demo_updateState,
       Reactor_getInitialConditions = demo_getInitialConditions,
       Reactor_componentIndex = demo_componentIndex,
       newIntegrator = (\<lambda>name. ([], 0)),
       BDF_Method = 1, DENSE = 1, NOJAC = 4, Newton_Iter = 2, DEBUG_MODE = False,
       Integrator_setMethod = (\<lambda>k i. i),
       Integrator_setProblemType = (\<lambda>k i. i),
       Integrator_setIterator = (\<lambda>k i. i),
       Integrator_setTolerances = (\<lambda>rtol n atol i. i),
       Integrator_setSensitivityTolerances = (\<lambda>rtol atol i. i),
       Integrator_setMaxStepSize = (\<lambda>h i. (fst i, h)),
       Integrator_initialize = demo_initialize,
       Integrator_integrate = demo_integrate,
       Integrator_step = demo_step,
       Integrator_solution = fst,
       initialize_t0 = 0 \<rparr>"

text \<open>Five local state vectors, of the sizes 2, 4, 3, 1 and 2.\<close>

definition demo_world :: "real list list" where
  "demo_world = [[1, 2], [3, 4, 5, 6], [7, 8, 9], [10], [11, 12]]"

text \<open>The network of the reactors 0 and 1, initialised at time 0: the sizes are 2 and 4.\<close>

definition demo_net :: "(buffer \<times> real) ReactorNet" where
  "demo_net =
     (case initialize demo_env 0 (registered demo_env [0, 1]) demo_world of
        Inl e \<Rightarrow> ReactorNet_new demo_env
      | Inr (net, w) \<Rightarrow> net)"

text \<open>The same with the reactors 0 and 4; reactor 4 fails in \<^verbatim>\<open>evalEqs\<close>.\<close>

definition demo_net_failing :: "(buffer \<times> real) ReactorNet" where
  "demo_net_failing =
     (case initialize demo_env 0 (registered demo_env [0, 4]) demo_world of
        Inl e \<Rightarrow> ReactorNet_new demo_env
      | Inr (net, w) \<Rightarrow> net)"


text \<open>
  Collaborators that record how they are called. The world is the list of the calls
  made so far: \<^verbatim>\<open>updateState\<close> with the offset of its pointer, \<^verbatim>\<open>evalEqs\<close> with the
  offsets of its three pointers. Every handle is an ordinary reactor; the reactors
  0, 1 and 2 have 2, 4 and 3 variables, and reactor \<open>r\<close> has \<open>r + 1\<close> sensitivity
  parameters. The integrator does nothing.
\<close>

datatype call = CallUpdateState handle int | CallEvalEqs handle int int int

definition probe_neq :: "handle \<Rightarrow> nat" where
  "probe_neq r = (if r = 0 then 2 else if r = 1 then 4 else 3)"

definition probe_env :: "(call list, unit) collaborators" where
  "probe_env =
     \<lparr> ReactorType = 2, FlowReactorType = 3,
       Reactor_type = (\<lambda>r. 2),
       Reactor_initialize = (\<lambda>r t0 w. Inr w),
       Reactor_neq = (\<lambda>r w. probe_neq r),
       Reactor_nSensParams = (\<lambda>r w. Suc r),
       Reactor_evalEqs = (\<lambda>r t y ydot p w. Inr (fst ydot, w @ [CallEvalEqs r (snd y) (snd ydot) (snd p)])),
       Reactor_updateState = (\<lambda>r y w. Inr (w @ [CallUpdateState r (snd y)])),
       Reactor_getInitialConditions = (\<lambda>r t0 n y w. Inr (fst y, w)),
       Reactor_componentIndex = (\<lambda>r name w. Inr 0),
       newIntegrator = (\<lambda>name. ()),
       BDF_Method = 1, DENSE = 1, NOJAC = 4, Newton_Iter = 2, DEBUG_MODE = False,
       Integrator_setMethod = (\<lambda>k i. i),
       Integrator_setProblemType = (\<lambda>k i. i),
       Integrator_setIterator = (\<lambda>k i. i),
       Integrator_setTolerances = (\<lambda>rtol n atol i. i),
       Integrator_setSensitivityTolerances = (\<lambda>rtol atol i. i),
       Integrator_setMaxStepSize = (\<lambda>h i. i),
       Integrator_initialize = (\<lambda>t0 fe i w. Inr (i, w)),
       Integrator_integrate = (\<lambda>time fe i w. Inr (i, w)),
       Integrator_step = (\<lambda>time fe i w. Inr (time, i, w)),
       Integrator_solution = (\<lambda>i. []),
       initialize_t0 = 0 \<rparr>"

section \<open>Evaluating the concrete network\<close>

lemmas demo_defs =
  demo_env_def demo_type_def demo_evalEqs_def demo_updateState_def demo_getInitialConditions_def
  demo_componentIndex_def demo_initialize_def demo_integrate_def demo_step_def demo_world_def poke_def

lemmas net_defs =
  registered_def ReactorNet_new_def addReactor_def initialize_def initialize_reset_def
  initialize_integrator_def verbose_log_def neq_def
  funcEval_def getInitialConditions_def updateState_def eval_def eval_try_def vec_at_def ptr_add_def
  lazy_initialize_def advance_def step_def showErrors_def error_def

lemmas loop_simps =
  initialize_loop.simps getInitialConditions_loop.simps updateState_loop.simps eval_loop.simps
  globalComponentIndex_loop.simps

lemma demo_net_eq:
  "demo_net =
     \<lparr> m_r = [0, 1], m_nr = 2, m_reactors = [0, 1], m_nreactors = 2,
       m_integ = ([1, 2, 3, 4, 5, 6], - 1), m_time = 0, m_init = True,
       m_nv = 6, m_size = [2, 4], m_nparams = [1, 2],
       m_atol = replicate 6 (1 / 10 ^ 15),
       m_rtol = 1 / 10 ^ 9, m_rtolsens = 1 / 10 ^ 4,
       m_atols = 1 / 10 ^ 15, m_atolsens = 1 / 10 ^ 4,
       m_maxstep = - 1, m_verbose = False, m_ntotpar = 3, logged = [] \<rparr>"
  by (simp add: demo_net_def demo_defs net_defs loop_simps Let_def)

lemma demo_net_failing_eq:
  "demo_net_failing =
     \<lparr> m_r = [0, 4], m_nr = 2, m_reactors = [0, 4], m_nreactors = 2,
       m_integ = ([1, 2, 11, 12], - 1), m_time = 0, m_init = True,
       m_nv = 4, m_size = [2, 2], m_nparams = [1, 5],
       m_atol = replicate 4 (1 / 10 ^ 15),
       m_rtol = 1 / 10 ^ 9, m_rtolsens = 1 / 10 ^ 4,
       m_atols = 1 / 10 ^ 15, m_atolsens = 1 / 10 ^ 4,
       m_maxstep = - 1, m_verbose = False, m_ntotpar = 6, logged = [] \<rparr>"
  by (simp add: demo_net_failing_def demo_defs net_defs loop_simps Let_def)

section \<open>Delegates that run after the original method\<close>

text \<open>
  The two signatures with a return value: \<^verbatim>\<open>setDelegate\<close> composes the delegate with
  the method that \<^verbatim>\<open>install\<close> has entered as the base, by \<^verbatim>\<open>+\<close> on \<^verbatim>\<open>size_t\<close> and
  by concatenation on \<^verbatim>\<open>std::string\<close>.
\<close>

lemma setDelegate_sz_csr_after:
  assumes "m_funcs_sz_csr d name \<noteq> None" and "m_base_sz_csr d name = Some base"
    and "base args s = Inr (ret1, s1)" and "func junk args s1 = Inr ((done, ret2), s2)"
  shows "\<exists>d' m. setDelegate_sz_csr junk name func ''after'' d = Inr d'
           \<and> m_funcs_sz_csr d' name = Some m
           \<and> m args s = Inr (if done \<noteq> 0 then ret1 + ret2 else ret1, s2)"
  using assms by (simp add: setDelegate_sz_csr_def makeDelegate_def Let_def)

lemma setDelegate_s_sz_after:
  assumes "m_funcs_s_sz d name \<noteq> None" and "m_base_s_sz d name = Some base"
    and "base args s = Inr (ret1, s1)" and "func [] args s1 = Inr ((done, ret2), s2)"
  shows "\<exists>d' m. setDelegate_s_sz name func ''after'' d = Inr d'
           \<and> m_funcs_s_sz d' name = Some m
           \<and> m args s = Inr (if done \<noteq> 0 then ret1 @ ret2 else ret1, s2)"
  using assms by (simp add: setDelegate_s_sz_def makeDelegate_def Let_def)

lemma install_sz_csr_installs:
  "m_funcs_sz_csr (install_sz_csr name base d) name = Some base
   \<and> m_base_sz_csr (install_sz_csr name base d) name = Some base"
  by (simp add: install_sz_csr_def)

text \<open>
  C10. For a method with a return value and a delegate installed with
  \<open>when = ''after''\<close>: the combined method runs the original method, then the
  delegate; when the delegate returns a non-zero \<^verbatim>\<open>int\<close> the result is the sum
  (\<^verbatim>\<open>operator+\<close>) of the original method's result and the delegate's result, and
  when it returns zero the result is the original method's result unchanged.
\<close>

theorem makeDelegate_after_adds:
  assumes "base args s = Inr (ret1, s1)"
    and "func ret0 args s1 = Inr ((done, ret2), s2)"
  shows "\<exists>m. makeDelegate add ret0 func ''after'' base = Inr m
           \<and> m args s = Inr (if done \<noteq> 0 then add ret1 ret2 else ret1, s2)"
  using assms by (simp add: makeDelegate_def)

theorem makeDelegate_after_adds_witness:
  "\<exists>m. makeDelegate (+) 0 (\<lambda>ret args s. Inr ((1, 7 :: 64 word), s)) ''after'' (\<lambda>args s. Inr (5, s)) = Inr m
       \<and> m ''X'' () = Inr (12, ())"
  using makeDelegate_after_adds [of "\<lambda>args s. Inr (5 :: 64 word, s)" "''X''" "()" 5 "()"
      "\<lambda>ret args s. Inr ((1, 7 :: 64 word), s)" 0 1 7 "()" "(+)"]
  by simp

section \<open>The loops visit the reactors at the running sums of the size table\<close>

lemma offset_of_0: "offset_of sizes 0 = 0"
  by (simp add: offset_of_def)

lemma offset_of_Suc: "n < length sizes \<Longrightarrow> offset_of sizes (Suc n) = offset_of sizes n + sizes ! n"
  by (simp add: offset_of_def take_Suc_conv_app_nth)

lemma vec_at_nth: "n < length v \<Longrightarrow> vec_at v (int n) = Inr (v ! n)"
  by (simp add: vec_at_def)

lemma fold_scatter_at_Inl: "fold (scatter_at env rs sizes y) ns (Inl e) = Inl e"
  by (induction ns) (simp_all add: scatter_at_def)

lemma fold_gather_at_Inl: "fold (gather_at env rs sizes t0 off) ns (Inl e) = Inl e"
  by (induction ns) (simp_all add: gather_at_def)

lemma fold_evalEqs_at_Inl: "fold (evalEqs_at env rs sizes nps t y doff p) ns (Inl e) = Inl e"
  by (induction ns) (simp_all add: evalEqs_at_def)

lemma updateState_loop_fold:
  assumes "tables_cover net" and "n \<le> nat (m_nreactors net)"
  shows "updateState_loop env net y (int n) (offset_of (m_size net) n) w =
           fold (scatter_at env (m_reactors net) (m_size net) y) [n..<nat (m_nreactors net)] (Inr w)"
  using assms(2)
proof (induction "nat (m_nreactors net) - n" arbitrary: n w)
  case 0
  then have "\<not> int n < m_nreactors net" by linarith
  moreover from 0 have "[n..<nat (m_nreactors net)] = []" by simp
  ultimately show ?case by (simp add: updateState_loop.simps)
next
  case (Suc d)
  let ?k = "nat (m_nreactors net)"
  from Suc.hyps(2) have lt: "n < ?k" by linarith
  then have cond: "int n < m_nreactors net" by linarith
  from lt assms(1) have r: "vec_at (m_reactors net) (int n) = Inr (m_reactors net ! n)"
    and s: "vec_at (m_size net) (int n) = Inr (m_size net ! n)"
    and off: "offset_of (m_size net) (Suc n) = offset_of (m_size net) n + m_size net ! n"
    by (simp_all add: tables_cover_def vec_at_nth offset_of_Suc)
  have upt: "[n..<?k] = n # [Suc n..<?k]" using lt by (rule upt_conv_Cons)
  show ?case
  proof (cases "Reactor_updateState env (m_reactors net ! n) (ptr_add y (offset_of (m_size net) n)) w")
    case (Inl e)
    then show ?thesis
      using cond r by (simp add: updateState_loop.simps [of env net y "int n"] upt scatter_at_def fold_scatter_at_Inl)
  next
    case (Inr w')
    have "updateState_loop env net y (int (Suc n)) (offset_of (m_size net) (Suc n)) w' =
            fold (scatter_at env (m_reactors net) (m_size net) y) [Suc n..<?k] (Inr w')"
      using Suc.hyps(2) lt by (intro Suc.hyps(1)) linarith+
    then show ?thesis
      using cond r s Inr off
      by (simp add: updateState_loop.simps [of env net y "int n"] upt scatter_at_def add.commute)
  qed
qed

lemma updateState_scatter_spec:
  "tables_cover net \<Longrightarrow>
     updateState env net y w = scatter_spec env (m_reactors net) (m_size net) (nat (m_nreactors net)) y w"
  using updateState_loop_fold [of net 0 env y w]
  by (simp add: updateState_def scatter_spec_def offset_of_0)


lemma getInitialConditions_loop_fold:
  assumes "tables_cover net" and "n \<le> nat (m_nreactors net)"
  shows "getInitialConditions_loop env net t0 (b, off) (int n) (offset_of (m_size net) n) w =
           fold (gather_at env (m_reactors net) (m_size net) t0 off) [n..<nat (m_nreactors net)] (Inr (b, w))"
  using assms(2)
proof (induction "nat (m_nreactors net) - n" arbitrary: n b w)
  case 0
  then have "\<not> int n < m_nreactors net" by linarith
  moreover from 0 have "[n..<nat (m_nreactors net)] = []" by simp
  ultimately show ?case by (simp add: getInitialConditions_loop.simps)
next
  case (Suc d)
  let ?k = "nat (m_nreactors net)"
  from Suc.hyps(2) have lt: "n < ?k" by linarith
  then have cond: "int n < m_nreactors net" by linarith
  from lt assms(1) have r: "vec_at (m_reactors net) (int n) = Inr (m_reactors net ! n)"
    and s: "vec_at (m_size net) (int n) = Inr (m_size net ! n)"
    and off: "offset_of (m_size net) (Suc n) = offset_of (m_size net) n + m_size net ! n"
    by (simp_all add: tables_cover_def vec_at_nth offset_of_Suc)
  have upt: "[n..<?k] = n # [Suc n..<?k]" using lt by (rule upt_conv_Cons)
  show ?case
  proof (cases "Reactor_getInitialConditions env (m_reactors net ! n) t0 (m_size net ! n)
                  (b, off + offset_of (m_size net) n) w")
    case (Inl e)
    then show ?thesis
      using cond r s
      by (simp add: getInitialConditions_loop.simps [of env net t0 "(b, off)" "int n"] upt gather_at_def
          fold_gather_at_Inl ptr_add_def)
  next
    case (Inr bw)
    obtain b' w' where bw: "bw = (b', w')" by (cases bw)
    have "getInitialConditions_loop env net t0 (b', off) (int (Suc n)) (offset_of (m_size net) (Suc n)) w' =
            fold (gather_at env (m_reactors net) (m_size net) t0 off) [Suc n..<?k] (Inr (b', w'))"
      using Suc.hyps(2) lt by (intro Suc.hyps(1)) linarith+
    then show ?thesis
      using cond r s Inr off bw
      by (simp add: getInitialConditions_loop.simps [of env net t0 "(b, off)" "int n"] upt gather_at_def
          ptr_add_def add.commute)
  qed
qed

lemma getInitialConditions_gather_spec:
  "tables_cover net \<Longrightarrow>
     getInitialConditions env net t0 leny y w =
       gather_spec env (m_reactors net) (m_size net) (nat (m_nreactors net)) t0 y w"
  using getInitialConditions_loop_fold [of net 0 env t0 "fst y" "snd y" w]
  by (simp add: getInitialConditions_def gather_spec_def offset_of_0)

lemma eval_loop_fold:
  assumes "tables_cover net" and "n \<le> nat (m_nreactors net)"
  shows "eval_loop env net t y (b, doff) p (int n) (offset_of (m_size net) n) (offset_of (m_nparams net) n) w =
           fold (evalEqs_at env (m_reactors net) (m_size net) (m_nparams net) t y doff p)
             [n..<nat (m_nreactors net)] (Inr (b, w))"
  using assms(2)
proof (induction "nat (m_nreactors net) - n" arbitrary: n b w)
  case 0
  then have "\<not> int n < m_nreactors net" by linarith
  moreover from 0 have "[n..<nat (m_nreactors net)] = []" by simp
  ultimately show ?case by (simp add: eval_loop.simps)
next
  case (Suc d)
  let ?k = "nat (m_nreactors net)"
  from Suc.hyps(2) have lt: "n < ?k" by linarith
  then have cond: "int n < m_nreactors net" by linarith
  from lt assms(1) have r: "vec_at (m_reactors net) (int n) = Inr (m_reactors net ! n)"
    and s: "vec_at (m_size net) (int n) = Inr (m_size net ! n)"
    and np: "vec_at (m_nparams net) (int n) = Inr (m_nparams net ! n)"
    and off: "offset_of (m_size net) (Suc n) = offset_of (m_size net) n + m_size net ! n"
    and poff: "offset_of (m_nparams net) (Suc n) = offset_of (m_nparams net) n + m_nparams net ! n"
    by (simp_all add: tables_cover_def vec_at_nth offset_of_Suc)
  have upt: "[n..<?k] = n # [Suc n..<?k]" using lt by (rule upt_conv_Cons)
  show ?case
  proof (cases "Reactor_evalEqs env (m_reactors net ! n) t (ptr_add y (offset_of (m_size net) n))
                  (b, doff + offset_of (m_size net) n) (ptr_add p (offset_of (m_nparams net) n)) w")
    case (Inl e)
    then show ?thesis
      using cond r
      by (simp add: eval_loop.simps [of env net t y "(b, doff)" p "int n"] upt evalEqs_at_def
          fold_evalEqs_at_Inl ptr_add_def)
  next
    case (Inr bw)
    obtain b' w' where bw: "bw = (b', w')" by (cases bw)
    have "eval_loop env net t y (b', doff) p (int (Suc n)) (offset_of (m_size net) (Suc n))
            (offset_of (m_nparams net) (Suc n)) w' =
            fold (evalEqs_at env (m_reactors net) (m_size net) (m_nparams net) t y doff p)
              [Suc n..<?k] (Inr (b', w'))"
      using Suc.hyps(2) lt by (intro Suc.hyps(1)) linarith+
    then show ?thesis
      using cond r s np Inr off poff bw
      by (simp add: eval_loop.simps [of env net t y "(b, doff)" p "int n"] upt evalEqs_at_def
          ptr_add_def add.commute)
  qed
qed

lemma eval_eval_spec:
  assumes "tables_cover net"
  shows "eval env net t y ydot p w =
           eval_spec env (m_reactors net) (m_size net) (m_nparams net) (nat (m_nreactors net))
             (logged net) t y ydot p w"
proof -
  have loop: "eval_loop env net t y ydot p 0 0 0 w' =
        fold (evalEqs_at env (m_reactors net) (m_size net) (m_nparams net) t y (snd ydot) p)
          [0..<nat (m_nreactors net)] (Inr (fst ydot, w'))" for w'
    using eval_loop_fold [OF assms, of 0 env t y "fst ydot" "snd ydot" p w']
    by (simp add: offset_of_0)
  show ?thesis
    by (simp add: eval_def eval_try_def eval_spec_def updateState_scatter_spec [OF assms] loop
        error_def showErrors_def split: sum.splits)
qed

lemma globalComponentIndex_loop_sum:
  assumes "n \<le> r" and "r \<le> length (m_size net)"
  shows "globalComponentIndex_loop net (int r) (int n) (offset_of (m_size net) n) =
           Inr (int r, offset_of (m_size net) r)"
  using assms(1)
proof (induction "r - n" arbitrary: n)
  case 0
  then show ?case by (simp add: globalComponentIndex_loop.simps)
next
  case (Suc d)
  from Suc.hyps(2) have lt: "n < r" by linarith
  with assms(2) have s: "vec_at (m_size net) (int n) = Inr (m_size net ! n)"
    and off: "offset_of (m_size net) (Suc n) = offset_of (m_size net) n + m_size net ! n"
    by (simp_all add: vec_at_nth offset_of_Suc)
  have "globalComponentIndex_loop net (int r) (int (Suc n)) (offset_of (m_size net) (Suc n)) =
          Inr (int r, offset_of (m_size net) r)"
    using Suc.hyps(2) lt by (intro Suc.hyps(1)) linarith+
  then show ?case
    using lt s off
    by (simp add: globalComponentIndex_loop.simps [of net "int r" "int n"] add.commute)
qed

section \<open>Index of a named component\<close>

text \<open>
  For a reactor index \<open>r\<close> within the tables, \<open>globalComponentIndex name r\<close> is the
  sum of the first \<open>r\<close> entries of the size table plus the local index that reactor
  \<open>r\<close>'s own \<^verbatim>\<open>componentIndex\<close> returns for the name, and it fails with that reactor's
  failure when the reactor does not recognise the name. On the network of the sizes
  2 and 4, initialised once, a name at local index 1 of the second reactor yields 3.
\<close>

lemma globalComponentIndex_offset:
  assumes "0 \<le> reactor"
    and "nat reactor < length (m_reactors net)"
    and "nat reactor \<le> length (m_size net)"
  shows "globalComponentIndex env net name reactor w =
           (case Reactor_componentIndex env (m_reactors net ! nat reactor) name w of
              Inl e \<Rightarrow> Inl e
            | Inr k \<Rightarrow> Inr (offset_of (m_size net) (nat reactor) + k))"
proof -
  have "globalComponentIndex_loop net reactor 0 0 = Inr (reactor, offset_of (m_size net) (nat reactor))"
    using globalComponentIndex_loop_sum [of 0 "nat reactor" net] assms(1,3)
    by (simp add: offset_of_0)
  moreover have "vec_at (m_reactors net) reactor = Inr (m_reactors net ! nat reactor)"
    using vec_at_nth [of "nat reactor" "m_reactors net"] assms(1,2) by simp
  ultimately show ?thesis
    by (simp add: globalComponentIndex_def)
qed

lemma globalComponentIndex_offset_witness:
  "globalComponentIndex demo_env demo_net ''X'' 1 demo_world = Inr 3
   \<and> globalComponentIndex demo_env demo_net ''Q'' 1 demo_world
       = Inl (CanteraError ''Reactor::componentIndex'' ''unknown component'')"
  using globalComponentIndex_offset [of 1 demo_net demo_env "''X''" demo_world]
    globalComponentIndex_offset [of 1 demo_net demo_env "''Q''" demo_world]
  by (simp add: demo_net_eq offset_of_def demo_env_def demo_componentIndex_def)

section \<open>No exception leaves the evaluator\<close>

text \<open>
  C2. For every invocation of \<open>eval\<close>: the result is never a C++ exception, and
  when the \<^verbatim>\<open>try\<close> block (the scatter, then every reactor's \<^verbatim>\<open>evalEqs\<close>) raises one,
  it is caught inside \<open>eval\<close>, reported through \<open>showErrors\<close>, and the run is
  terminated by \<open>error\<close> with the message \<open>Terminating execution.\<close>; nothing is
  retried. What the \<^verbatim>\<open>try\<close> block returns is returned.
\<close>

theorem eval_catches_failures:
  "(\<forall>e. eval env net t y ydot p w = Inl e \<longrightarrow> \<not> is_exception e)
   \<and> (\<forall>e. eval_try env net t y ydot p w = Inl e \<and> is_exception e \<longrightarrow>
         eval env net t y ydot p w
           = Inl (Terminated (logged net @ [ShowErrors, ErrorMsg ''Terminating execution.''])))
   \<and> (\<forall>r. eval_try env net t y ydot p w = Inr r \<longrightarrow> eval env net t y ydot p w = Inr r)"
  by (auto simp: eval_def error_def showErrors_def split: sum.splits if_splits)

theorem eval_catches_failures_witness:
  "eval_try demo_env demo_net_failing 0 ([1, 2, 11, 12], 0) ([0, 0, 0, 0], 0) ([], 0) demo_world
     = Inl (CanteraError ''Reactor::evalEqs'' ''rate evaluation failed'')
   \<and> eval demo_env demo_net_failing 0 ([1, 2, 11, 12], 0) ([0, 0, 0, 0], 0) ([], 0) demo_world
     = Inl (Terminated [ShowErrors, ErrorMsg ''Terminating execution.''])"
proof -
  have t: "eval_try demo_env demo_net_failing 0 ([1, 2, 11, 12], 0) ([0, 0, 0, 0], 0) ([], 0) demo_world
     = Inl (CanteraError ''Reactor::evalEqs'' ''rate evaluation failed'')"
    by (simp add: demo_net_failing_eq demo_defs eval_try_def updateState_def vec_at_def ptr_add_def
        loop_simps)
  with eval_catches_failures [of demo_env demo_net_failing 0 "([1, 2, 11, 12], 0)" "([0, 0, 0, 0], 0)"
      "([], 0)" demo_world]
  show ?thesis by (simp add: demo_net_failing_eq)
qed

section \<open>Gathering the initial conditions\<close>




section \<open>What initialisation leaves untouched\<close>

lemma initialize_loop_frame:
  "initialize_loop env t0 n net w = Inr (net', w') \<Longrightarrow>
     m_maxstep net' = m_maxstep net \<and> m_time net' = m_time net \<and> m_r net' = m_r net
     \<and> m_nr net' = m_nr net \<and> m_verbose net' = m_verbose net \<and> m_init net' = m_init net
     \<and> m_integ net' = m_integ net \<and> m_atols net' = m_atols net \<and> m_rtol net' = m_rtol net
     \<and> m_rtolsens net' = m_rtolsens net \<and> m_atolsens net' = m_atolsens net"
proof (induction env t0 n net w rule: initialize_loop.induct)
  case (1 env t0 n net w)
  show ?case
  proof (cases "n < m_nr net")
    case False
    with "1.prems" show ?thesis by (simp add: initialize_loop.simps)
  next
    case True
    with "1.prems" obtain r where r: "vec_at (m_r net) n = Inr r"
      by (cases "vec_at (m_r net) n") (simp_all add: initialize_loop.simps [of env t0 n net])
    show ?thesis
    proof (cases "ReactorType env \<le> Reactor_type env r")
      case False
      with True r "1.prems" have "initialize_loop env t0 (n + 1) net w = Inr (net', w')"
        by (simp add: initialize_loop.simps [of env t0 n net])
      with "1.IH"(2) [OF True r False] show ?thesis by simp
    next
      case q: True
      with True r "1.prems" obtain w1 where w1: "Reactor_initialize env r t0 w = Inr w1"
        by (cases "Reactor_initialize env r t0 w") (simp_all add: initialize_loop.simps [of env t0 n net])
      define net7 where "net7 = verbose_log
                       [LogReactorVars n (int (Reactor_neq env r w1)), LogSensParams (int (Reactor_nSensParams env r w1))]
                       (net\<lparr>m_reactors := m_reactors net @ [r],
                            m_size := m_size net @ [int (Reactor_neq env r w1)],
                            m_nparams := m_nparams net @ [int (Reactor_nSensParams env r w1)],
                            m_ntotpar := m_ntotpar net + int (Reactor_nSensParams env r w1),
                            m_nv := m_nv net + int (Reactor_neq env r w1),
                            m_nreactors := m_nreactors net + 1\<rparr>)"
      from True r q w1 "1.prems"
      have noflow: "\<not> (Reactor_type env r = FlowReactorType env \<and> 1 < m_nr net7)"
        and rec: "initialize_loop env t0 (n + 1) net7 w1 = Inr (net', w')"
        by (auto simp: initialize_loop.simps [of env t0 n net] Let_def net7_def split: if_splits)
      have "m_maxstep net' = m_maxstep net7 \<and> m_time net' = m_time net7 \<and> m_r net' = m_r net7
     \<and> m_nr net' = m_nr net7 \<and> m_verbose net' = m_verbose net7 \<and> m_init net' = m_init net7
     \<and> m_integ net' = m_integ net7 \<and> m_atols net' = m_atols net7 \<and> m_rtol net' = m_rtol net7
     \<and> m_rtolsens net' = m_rtolsens net7 \<and> m_atolsens net' = m_atolsens net7"
        using "1.IH"(1) [OF True r q w1, of "int (Reactor_neq env r w1)"] noflow rec
        by (simp add: net7_def Let_def)
      then show ?thesis by (simp add: net7_def verbose_log_def)
    qed
  qed
qed


lemma verbose_log_fields:
  "m_r (verbose_log es net) = m_r net"
  "m_nr (verbose_log es net) = m_nr net"
  "m_reactors (verbose_log es net) = m_reactors net"
  "m_nreactors (verbose_log es net) = m_nreactors net"
  "m_integ (verbose_log es net) = m_integ net"
  "m_time (verbose_log es net) = m_time net"
  "m_init (verbose_log es net) = m_init net"
  "m_nv (verbose_log es net) = m_nv net"
  "m_size (verbose_log es net) = m_size net"
  "m_nparams (verbose_log es net) = m_nparams net"
  "m_atol (verbose_log es net) = m_atol net"
  "m_rtol (verbose_log es net) = m_rtol net"
  "m_rtolsens (verbose_log es net) = m_rtolsens net"
  "m_atols (verbose_log es net) = m_atols net"
  "m_atolsens (verbose_log es net) = m_atolsens net"
  "m_maxstep (verbose_log es net) = m_maxstep net"
  "m_verbose (verbose_log es net) = m_verbose net"
  "m_ntotpar (verbose_log es net) = m_ntotpar net"
  by (simp_all add: verbose_log_def)

lemma initialize_frame:
  assumes "initialize env t0 net w = Inr (net', w')"
  shows "m_init net' \<and> m_maxstep net' = m_maxstep net \<and> m_time net' = m_time net
         \<and> m_r net' = m_r net \<and> m_nr net' = m_nr net"
  using assms
  by (auto simp: initialize_def initialize_reset_def initialize_integrator_def Let_def
      verbose_log_fields split: sum.splits dest!: initialize_loop_frame)

lemma lazy_initialize_done: "m_init net \<Longrightarrow> lazy_initialize env time net w = Inr (net, w)"
  by (simp add: lazy_initialize_def)

section \<open>Advancing and stepping on a network that may not be initialised\<close>

text \<open>
  C7. On a network that is not initialised, \<open>advance\<close> and \<open>step\<close> first set the
  maximum step size to the requested time minus the current time when none is
  configured (the member is negative, as the constructor leaves it), then run
  \<open>initialize\<close>, and then proceed as on an initialised network; the network that
  \<open>initialize\<close> returns is initialised and carries that maximum step size. On an
  initialised network the first statement does nothing, and a successful call
  changes the integrator and the current time only: \<open>initialize\<close> is not run again
  and the maximum step size stays.
\<close>

theorem lazy_initialization:
  "(\<not> m_init net \<longrightarrow>
      advance env T net w =
        (case initialize env (initialize_t0 env)
                (if m_maxstep net < 0 then net\<lparr>m_maxstep := T - m_time net\<rparr> else net) w of
           Inl e \<Rightarrow> Inl e
         | Inr (net1, w1) \<Rightarrow> advance env T net1 w1)
      \<and> step env T net w =
        (case initialize env (initialize_t0 env)
                (if m_maxstep net < 0 then net\<lparr>m_maxstep := T - m_time net\<rparr> else net) w of
           Inl e \<Rightarrow> Inl e
         | Inr (net1, w1) \<Rightarrow> step env T net1 w1)
      \<and> (\<forall>net1 w1.
            initialize env (initialize_t0 env)
              (if m_maxstep net < 0 then net\<lparr>m_maxstep := T - m_time net\<rparr> else net) w = Inr (net1, w1)
            \<longrightarrow> m_init net1
                \<and> m_maxstep net1 = (if m_maxstep net < 0 then T - m_time net else m_maxstep net)))
   \<and> (m_init net \<longrightarrow>
      lazy_initialize env T net w = Inr (net, w)
      \<and> (\<forall>net' w'. advance env T net w = Inr (net', w')
            \<longrightarrow> net' = net\<lparr>m_integ := m_integ net', m_time := T\<rparr>)
      \<and> (\<forall>reached net' w'. step env T net w = Inr (reached, net', w')
            \<longrightarrow> net' = net\<lparr>m_integ := m_integ net', m_time := reached\<rparr>))"
proof (intro conjI impI allI)
  let ?net0 = "if m_maxstep net < 0 then net\<lparr>m_maxstep := T - m_time net\<rparr> else net"
  {
    assume u: "\<not> m_init net"
    show "advance env T net w =
        (case initialize env (initialize_t0 env) ?net0 w of
           Inl e \<Rightarrow> Inl e
         | Inr (net1, w1) \<Rightarrow> advance env T net1 w1)"
    proof (cases "initialize env (initialize_t0 env) ?net0 w")
      case (Inl e)
      with u show ?thesis by (simp add: advance_def lazy_initialize_def Let_def)
    next
      case (Inr x)
      obtain net1 w1 where x: "x = (net1, w1)" by (cases x)
      from initialize_frame [OF Inr [unfolded x]] have "m_init net1" by simp
      with u Inr x show ?thesis by (simp add: advance_def lazy_initialize_def Let_def)
    qed
    show "step env T net w =
        (case initialize env (initialize_t0 env) ?net0 w of
           Inl e \<Rightarrow> Inl e
         | Inr (net1, w1) \<Rightarrow> step env T net1 w1)"
    proof (cases "initialize env (initialize_t0 env) ?net0 w")
      case (Inl e)
      with u show ?thesis by (simp add: step_def lazy_initialize_def Let_def)
    next
      case (Inr x)
      obtain net1 w1 where x: "x = (net1, w1)" by (cases x)
      from initialize_frame [OF Inr [unfolded x]] have "m_init net1" by simp
      with u Inr x show ?thesis by (simp add: step_def lazy_initialize_def Let_def)
    qed
  }
  {
    fix net1 w1
    assume i: "initialize env (initialize_t0 env) ?net0 w = Inr (net1, w1)"
    from initialize_frame [OF i] show "m_init net1" by simp
    from initialize_frame [OF i]
    show "m_maxstep net1 = (if m_maxstep net < 0 then T - m_time net else m_maxstep net)"
      by (simp split: if_splits)
  }
  {
    assume "m_init net"
    then show "lazy_initialize env T net w = Inr (net, w)" by (rule lazy_initialize_done)
  }
  {
    fix net' w'
    assume "m_init net" and "advance env T net w = Inr (net', w')"
    then show "net' = net\<lparr>m_integ := m_integ net', m_time := T\<rparr>"
      by (auto simp: advance_def lazy_initialize_def Let_def split: sum.splits)
  }
  {
    fix reached net' w'
    assume "m_init net" and "step env T net w = Inr (reached, net', w')"
    then show "net' = net\<lparr>m_integ := m_integ net', m_time := reached\<rparr>"
      by (auto simp: step_def lazy_initialize_def Let_def split: sum.splits)
  }
qed

theorem lazy_initialization_witness:
  "\<not> m_init (registered demo_env [2]) \<and> m_maxstep (registered demo_env [2]) < 0
   \<and> (\<exists>net1 w1.
         initialize demo_env 0 ((registered demo_env [2])\<lparr>m_maxstep := 1 - 0\<rparr>) demo_world = Inr (net1, w1)
         \<and> m_init net1 \<and> m_maxstep net1 = 1
         \<and> advance demo_env 1 (registered demo_env [2]) demo_world = advance demo_env 1 net1 w1)
   \<and> m_init demo_net
   \<and> lazy_initialize demo_env 5 demo_net demo_world = Inr (demo_net, demo_world)"
proof -
  let ?net = "registered demo_env [2]"
  have u: "\<not> m_init ?net" and m: "m_maxstep ?net < 0" and t: "m_time ?net = 0"
    by (simp_all add: registered_def ReactorNet_new_def addReactor_def)
  have "\<exists>x. initialize demo_env 0 (?net\<lparr>m_maxstep := 1 - 0\<rparr>) demo_world = Inr x"
    by (simp add: demo_defs net_defs loop_simps Let_def)
  then obtain net1 w1 where
    i: "initialize demo_env 0 (?net\<lparr>m_maxstep := 1 - 0\<rparr>) demo_world = Inr (net1, w1)"
    by auto
  have z: "initialize_t0 demo_env = 0" by (simp add: demo_env_def)
  note th = lazy_initialization [of ?net demo_env 1 demo_world]
  from th u m t i z have 1: "m_init net1 \<and> m_maxstep net1 = 1" by simp
  from th u m t i z
  have 2: "advance demo_env 1 ?net demo_world = advance demo_env 1 net1 w1" by simp
  have d: "m_init demo_net" by (simp add: demo_net_eq)
  with lazy_initialization [of demo_net demo_env 5 demo_world]
  have 3: "lazy_initialize demo_env 5 demo_net demo_world = Inr (demo_net, demo_world)" by blast
  from u m i 1 2 d 3 show ?thesis by blast
qed

section \<open>The tables that initialisation builds\<close>

lemma initialize_loop_tables:
  assumes "initialize_loop env t0 n net w = Inr (net', w')"
    and "m_nr net = int (length (m_r net))" and "0 \<le> n"
  shows "m_reactors net' = m_reactors net @ filter (qualifies env) (drop (nat n) (m_r net))
       \<and> m_size net' = m_size net @ map (\<lambda>p. int (fst p)) (local_sizes env t0 (drop (nat n) (m_r net)) w)
       \<and> m_nparams net' = m_nparams net @ map (\<lambda>p. int (snd p)) (local_sizes env t0 (drop (nat n) (m_r net)) w)
       \<and> m_nv net' = m_nv net + sum_list (map (\<lambda>p. int (fst p)) (local_sizes env t0 (drop (nat n) (m_r net)) w))
       \<and> m_ntotpar net' =
           m_ntotpar net + sum_list (map (\<lambda>p. int (snd p)) (local_sizes env t0 (drop (nat n) (m_r net)) w))
       \<and> m_nreactors net' = m_nreactors net + int (length (filter (qualifies env) (drop (nat n) (m_r net))))
       \<and> length (local_sizes env t0 (drop (nat n) (m_r net)) w)
           = length (filter (qualifies env) (drop (nat n) (m_r net)))"
  using assms
proof (induction env t0 n net w rule: initialize_loop.induct)
  case (1 env t0 n net w)
  show ?case
  proof (cases "n < m_nr net")
    case False
    with "1.prems" show ?thesis by (simp add: initialize_loop.simps)
  next
    case True
    with "1.prems" have lt: "nat n < length (m_r net)" by linarith
    then have r: "vec_at (m_r net) n = Inr (m_r net ! nat n)"
      using "1.prems"(3) by (simp add: vec_at_def)
    let ?r = "m_r net ! nat n"
    define rest where "rest = drop (nat (n + 1)) (m_r net)"
    have dr: "drop (nat n) (m_r net) = ?r # rest"
      using lt "1.prems"(3) by (simp add: rest_def Cons_nth_drop_Suc nat_add_distrib)
    have n1: "0 \<le> n + 1" using "1.prems"(3) by simp
    show ?thesis
    proof (cases "ReactorType env \<le> Reactor_type env ?r")
      case False
      with True r "1.prems" have "initialize_loop env t0 (n + 1) net w = Inr (net', w')"
        by (simp add: initialize_loop.simps [of env t0 n net])
      moreover from False have "\<not> qualifies env ?r" by (simp add: qualifies_def)
      ultimately show ?thesis
        using "1.IH"(2) [OF True r False _ "1.prems"(2) n1, folded rest_def]
        by (simp add: dr)
    next
      case q: True
      with True r "1.prems" obtain w1 where w1: "Reactor_initialize env ?r t0 w = Inr w1"
        by (cases "Reactor_initialize env ?r t0 w") (simp_all add: initialize_loop.simps [of env t0 n net])
      define net7 where "net7 = verbose_log
                       [LogReactorVars n (int (Reactor_neq env ?r w1)), LogSensParams (int (Reactor_nSensParams env ?r w1))]
                       (net\<lparr>m_reactors := m_reactors net @ [?r],
                            m_size := m_size net @ [int (Reactor_neq env ?r w1)],
                            m_nparams := m_nparams net @ [int (Reactor_nSensParams env ?r w1)],
                            m_ntotpar := m_ntotpar net + int (Reactor_nSensParams env ?r w1),
                            m_nv := m_nv net + int (Reactor_neq env ?r w1),
                            m_nreactors := m_nreactors net + 1\<rparr>)"
      from True r q w1 "1.prems"
      have noflow: "\<not> (Reactor_type env ?r = FlowReactorType env \<and> 1 < m_nr net7)"
        and rec: "initialize_loop env t0 (n + 1) net7 w1 = Inr (net', w')"
        by (auto simp: initialize_loop.simps [of env t0 n net] Let_def net7_def split: if_splits)
      have nr7: "m_nr net7 = int (length (m_r net7))"
        using "1.prems"(2) by (simp add: net7_def verbose_log_fields)
      have ih: "m_reactors net' = m_reactors net7 @ filter (qualifies env) rest
       \<and> m_size net' = m_size net7 @ map (\<lambda>p. int (fst p)) (local_sizes env t0 rest w1)
       \<and> m_nparams net' = m_nparams net7 @ map (\<lambda>p. int (snd p)) (local_sizes env t0 rest w1)
       \<and> m_nv net' = m_nv net7 + sum_list (map (\<lambda>p. int (fst p)) (local_sizes env t0 rest w1))
       \<and> m_ntotpar net' = m_ntotpar net7 + sum_list (map (\<lambda>p. int (snd p)) (local_sizes env t0 rest w1))
       \<and> m_nreactors net' = m_nreactors net7 + int (length (filter (qualifies env) rest))
       \<and> length (local_sizes env t0 rest w1) = length (filter (qualifies env) rest)"
        using "1.IH"(1) [OF True r q w1 refl refl refl refl refl refl refl refl] noflow rec nr7 n1
        by (simp add: net7_def rest_def verbose_log_fields)
      have f7: "m_r net7 = m_r net" "m_reactors net7 = m_reactors net @ [?r]"
        "m_size net7 = m_size net @ [int (Reactor_neq env ?r w1)]"
        "m_nparams net7 = m_nparams net @ [int (Reactor_nSensParams env ?r w1)]"
        "m_ntotpar net7 = m_ntotpar net + int (Reactor_nSensParams env ?r w1)"
        "m_nv net7 = m_nv net + int (Reactor_neq env ?r w1)"
        "m_nreactors net7 = m_nreactors net + 1"
        by (simp_all add: net7_def verbose_log_fields)
      from q have "qualifies env ?r" by (simp add: qualifies_def)
      with ih w1 show ?thesis
        by (simp add: f7 dr)
    qed
  qed
qed


lemma initialize_reset_fields:
  "m_r (initialize_reset net) = m_r net" "m_nr (initialize_reset net) = m_nr net"
  "m_reactors (initialize_reset net) = []" "m_nreactors (initialize_reset net) = 0"
  "m_nv (initialize_reset net) = 0" "m_size (initialize_reset net) = m_size net"
  "m_nparams (initialize_reset net) = m_nparams net" "m_ntotpar (initialize_reset net) = m_ntotpar net"
  by (simp_all add: initialize_reset_def Let_def verbose_log_fields)

lemma initialize_integrator_fields:
  "m_r (initialize_integrator env net) = m_r net" "m_nr (initialize_integrator env net) = m_nr net"
  "m_reactors (initialize_integrator env net) = m_reactors net"
  "m_nreactors (initialize_integrator env net) = m_nreactors net"
  "m_nv (initialize_integrator env net) = m_nv net" "m_size (initialize_integrator env net) = m_size net"
  "m_nparams (initialize_integrator env net) = m_nparams net"
  "m_ntotpar (initialize_integrator env net) = m_ntotpar net"
  by (simp_all add: initialize_integrator_def Let_def verbose_log_fields)

lemma initialize_tables:
  assumes "initialize env t0 net w = Inr (net', w')"
    and "m_nr net = int (length (m_r net))"
  shows "m_reactors net' = filter (qualifies env) (m_r net)
       \<and> m_size net' = m_size net @ map (\<lambda>p. int (fst p)) (local_sizes env t0 (m_r net) w)
       \<and> m_nparams net' = m_nparams net @ map (\<lambda>p. int (snd p)) (local_sizes env t0 (m_r net) w)
       \<and> m_nv net' = sum_list (map (\<lambda>p. int (fst p)) (local_sizes env t0 (m_r net) w))
       \<and> m_ntotpar net' = m_ntotpar net + sum_list (map (\<lambda>p. int (snd p)) (local_sizes env t0 (m_r net) w))
       \<and> m_nreactors net' = int (length (filter (qualifies env) (m_r net)))
       \<and> length (local_sizes env t0 (m_r net) w) = length (filter (qualifies env) (m_r net))"
proof -
  from assms(1) obtain net5 w5 where l: "initialize_loop env t0 0 (initialize_reset net) w = Inr (net5, w5)"
    and n': "m_reactors net' = m_reactors net5" "m_size net' = m_size net5"
      "m_nparams net' = m_nparams net5" "m_nv net' = m_nv net5" "m_ntotpar net' = m_ntotpar net5"
      "m_nreactors net' = m_nreactors net5"
    by (auto simp: initialize_def Let_def initialize_integrator_fields split: sum.splits)
  have "m_nr (initialize_reset net) = int (length (m_r (initialize_reset net)))"
    using assms(2) by (simp add: initialize_reset_fields)
  from initialize_loop_tables [OF l this] n' show ?thesis
    by (simp add: initialize_reset_fields)
qed


lemma demo_net_initialized:
  "initialize demo_env 0 (registered demo_env [0, 1]) demo_world = Inr (demo_net, demo_world)"
  by (simp add: demo_net_eq) (simp add: demo_defs net_defs loop_simps Let_def)

section \<open>Offsets of the evaluator after a first initialisation\<close>

text \<open>
  On a network initialised from the empty tables of a fresh network, whose
  qualifying reactors report the local sizes \<open>n1..nk\<close>: the size table holds
  \<open>n1..nk\<close>, one entry per qualifying reactor in registration order, the total
  equation count is \<open>n1 + ... + nk\<close>, and \<open>eval t y ydot p\<close> first scatters \<open>y\<close> into
  every reactor and then, in registration order, calls reactor \<open>i\<close>'s \<^verbatim>\<open>evalEqs\<close>
  with \<open>y\<close> and \<open>ydot\<close> at the offset \<open>n1 + ... + n(i-1)\<close> and \<open>p\<close> at the sum of the
  sensitivity-parameter counts of the reactors before \<open>i\<close>. The hypothesis of empty
  tables is needed: see the last section.
\<close>

lemma eval_offsets_are_running_sums:
  assumes "initialize env t0 net0 w0 = Inr (net, w1)"
    and "m_nr net0 = int (length (m_r net0))"
    and "m_size net0 = []" and "m_nparams net0 = []"
  shows "m_reactors net = filter (qualifies env) (m_r net0)
       \<and> m_size net = map (\<lambda>p. int (fst p)) (local_sizes env t0 (m_r net0) w0)
       \<and> m_nparams net = map (\<lambda>p. int (snd p)) (local_sizes env t0 (m_r net0) w0)
       \<and> length (m_size net) = length (m_reactors net)
       \<and> length (m_nparams net) = length (m_reactors net)
       \<and> m_nv net = sum_list (m_size net)
       \<and> eval env net t y ydot p w =
           eval_spec env (m_reactors net) (m_size net) (m_nparams net) (length (m_reactors net))
             (logged net) t y ydot p w"
proof -
  note tab = initialize_tables [OF assms(1,2)]
  from tab assms(3,4) have c: "tables_cover net"
    by (simp add: tables_cover_def)
  from tab have k: "nat (m_nreactors net) = length (m_reactors net)" by simp
  from eval_eval_spec [OF c, of env t y ydot p w] k tab assms(3,4) show ?thesis
    by simp
qed

lemma eval_offsets_are_running_sums_witness:
  "m_nv demo_net = 2 + 4 \<and> m_size demo_net = [2, 4] \<and> m_nparams demo_net = [1, 2]
   \<and> eval demo_env demo_net 0 ([1, 2, 3, 4, 5, 6], 0) ([0, 0, 0, 0, 0, 0], 0) ([], 0) demo_world
       = eval_spec demo_env [0, 1] [2, 4] [1, 2] 2 [] 0
           ([1, 2, 3, 4, 5, 6], 0) ([0, 0, 0, 0, 0, 0], 0) ([], 0) demo_world
   \<and> eval demo_env demo_net 0 ([1, 2, 3, 4, 5, 6], 0) ([0, 0, 0, 0, 0, 0], 0) ([], 0) demo_world
       = Inr ([- 1, - 2, - 3, - 4, - 5, - 6], demo_world)"
proof -
  have "m_nr (registered demo_env [0, 1]) = int (length (m_r (registered demo_env [0, 1])))"
    and "m_size (registered demo_env [0, 1]) = []" and "m_nparams (registered demo_env [0, 1]) = []"
    by (simp_all add: registered_def ReactorNet_new_def addReactor_def)
  note th = eval_offsets_are_running_sums [OF demo_net_initialized this,
      of 0 "([1, 2, 3, 4, 5, 6], 0)" "([0, 0, 0, 0, 0, 0], 0)" "([], 0)" demo_world]
  have f: "m_size demo_net = [2, 4]" "m_nparams demo_net = [1, 2]" "m_reactors demo_net = [0, 1]"
    "logged demo_net = []" "m_nv demo_net = 2 + 4"
    by (simp_all add: demo_net_eq)
  from th have "eval demo_env demo_net 0 ([1, 2, 3, 4, 5, 6], 0) ([0, 0, 0, 0, 0, 0], 0) ([], 0) demo_world
       = eval_spec demo_env (m_reactors demo_net) (m_size demo_net) (m_nparams demo_net)
           (length (m_reactors demo_net)) (logged demo_net) 0
           ([1, 2, 3, 4, 5, 6], 0) ([0, 0, 0, 0, 0, 0], 0) ([], 0) demo_world"
    by blast
  moreover have "eval demo_env demo_net 0 ([1, 2, 3, 4, 5, 6], 0) ([0, 0, 0, 0, 0, 0], 0) ([], 0) demo_world
       = Inr ([- 1, - 2, - 3, - 4, - 5, - 6], demo_world)"
    by (simp add: demo_net_eq demo_defs eval_def eval_try_def updateState_def vec_at_def ptr_add_def
        loop_simps)
  ultimately show ?thesis using f by (simp add: numeral_2_eq_2)
qed

lemma initialize_loop_flow_fails:
  assumes "m_nr net = int (length (m_r net))" and "1 < m_nr net" and "0 \<le> n"
    and "\<exists>r\<in>set (drop (nat n) (m_r net)). qualifies env r \<and> Reactor_type env r = FlowReactorType env"
    and "\<forall>r\<in>set (m_r net). \<forall>w. \<exists>w'. Reactor_initialize env r t0 w = Inr w'"
  shows "initialize_loop env t0 n net w =
           Inl (CanteraError ''ReactorNet::initialize'' ''FlowReactors must be used alone.'')"
  using assms
proof (induction env t0 n net w rule: initialize_loop.induct)
  case (1 env t0 n net w)
  from "1.prems"(4) have "drop (nat n) (m_r net) \<noteq> []" by auto
  then have lt: "nat n < length (m_r net)" by simp
  with "1.prems"(1,3) have True: "n < m_nr net" by linarith
  from lt "1.prems"(3) have r: "vec_at (m_r net) n = Inr (m_r net ! nat n)"
    by (simp add: vec_at_def)
  let ?r = "m_r net ! nat n"
  define rest where "rest = drop (nat (n + 1)) (m_r net)"
  have dr: "drop (nat n) (m_r net) = ?r # rest"
    using lt "1.prems"(3) by (simp add: rest_def Cons_nth_drop_Suc nat_add_distrib)
  have n1: "0 \<le> n + 1" using "1.prems"(3) by simp
  have rin: "?r \<in> set (m_r net)" using lt by simp
  show ?case
  proof (cases "ReactorType env \<le> Reactor_type env ?r")
    case False
    then have "\<not> qualifies env ?r" by (simp add: qualifies_def)
    with "1.prems"(4) have ex: "\<exists>r\<in>set rest. qualifies env r \<and> Reactor_type env r = FlowReactorType env"
      by (auto simp: dr)
    from "1.IH"(2) [OF True r False "1.prems"(1,2) n1 ex [unfolded rest_def] "1.prems"(5)]
    show ?thesis
      using True r False by (simp add: initialize_loop.simps [of env t0 n net])
  next
    case q: True
    from "1.prems"(5) rin obtain w1 where w1: "Reactor_initialize env ?r t0 w = Inr w1" by blast
    define net7 where "net7 = verbose_log
                     [LogReactorVars n (int (Reactor_neq env ?r w1)), LogSensParams (int (Reactor_nSensParams env ?r w1))]
                     (net\<lparr>m_reactors := m_reactors net @ [?r],
                          m_size := m_size net @ [int (Reactor_neq env ?r w1)],
                          m_nparams := m_nparams net @ [int (Reactor_nSensParams env ?r w1)],
                          m_ntotpar := m_ntotpar net + int (Reactor_nSensParams env ?r w1),
                          m_nv := m_nv net + int (Reactor_neq env ?r w1),
                          m_nreactors := m_nreactors net + 1\<rparr>)"
    have f7: "m_r net7 = m_r net" "m_nr net7 = m_nr net"
      by (simp_all add: net7_def verbose_log_fields)
    have unfold: "initialize_loop env t0 n net w =
        (if Reactor_type env ?r = FlowReactorType env \<and> 1 < m_nr net7
         then Inl (CanteraError ''ReactorNet::initialize'' ''FlowReactors must be used alone.'')
         else initialize_loop env t0 (n + 1) net7 w1)"
      using True r q w1 by (simp add: initialize_loop.simps [of env t0 n net] Let_def net7_def)
    show ?thesis
    proof (cases "Reactor_type env ?r = FlowReactorType env")
      case True
      with unfold "1.prems"(2) show ?thesis by (simp add: f7)
    next
      case False
      with "1.prems"(4) have ex: "\<exists>r\<in>set rest. qualifies env r \<and> Reactor_type env r = FlowReactorType env"
        by (auto simp: dr)
      have "initialize_loop env t0 (n + 1) net7 w1 =
           Inl (CanteraError ''ReactorNet::initialize'' ''FlowReactors must be used alone.'')"
        using "1.IH"(1) [OF \<open>n < m_nr net\<close> r q w1 refl refl refl refl refl refl refl refl]
          False "1.prems"(1,2,5) n1 ex
        by (simp add: net7_def rest_def verbose_log_fields)
      with unfold False show ?thesis by simp
    qed
  qed
qed

lemma initialize_loop_alone_succeeds:
  assumes "m_nr net = int (length (m_r net))" and "m_nr net \<le> 1" and "0 \<le> n"
    and "\<forall>r\<in>set (m_r net). \<forall>w. \<exists>w'. Reactor_initialize env r t0 w = Inr w'"
  shows "\<exists>net' w'. initialize_loop env t0 n net w = Inr (net', w')"
  using assms
proof (induction env t0 n net w rule: initialize_loop.induct)
  case (1 env t0 n net w)
  show ?case
  proof (cases "n < m_nr net")
    case False
    then show ?thesis by (simp add: initialize_loop.simps [of env t0 n net])
  next
    case True
    with "1.prems"(1,3) have lt: "nat n < length (m_r net)" by linarith
    from lt "1.prems"(3) have r: "vec_at (m_r net) n = Inr (m_r net ! nat n)"
      by (simp add: vec_at_def)
    let ?r = "m_r net ! nat n"
    have n1: "0 \<le> n + 1" using "1.prems"(3) by simp
    have rin: "?r \<in> set (m_r net)" using lt by simp
    show ?thesis
    proof (cases "ReactorType env \<le> Reactor_type env ?r")
      case False
      from "1.IH"(2) [OF True r False "1.prems"(1,2) n1 "1.prems"(4)]
      show ?thesis
        using True r False by (simp add: initialize_loop.simps [of env t0 n net])
    next
      case q: True
      from "1.prems"(4) rin obtain w1 where w1: "Reactor_initialize env ?r t0 w = Inr w1" by blast
      define net7 where "net7 = verbose_log
                     [LogReactorVars n (int (Reactor_neq env ?r w1)), LogSensParams (int (Reactor_nSensParams env ?r w1))]
                     (net\<lparr>m_reactors := m_reactors net @ [?r],
                          m_size := m_size net @ [int (Reactor_neq env ?r w1)],
                          m_nparams := m_nparams net @ [int (Reactor_nSensParams env ?r w1)],
                          m_ntotpar := m_ntotpar net + int (Reactor_nSensParams env ?r w1),
                          m_nv := m_nv net + int (Reactor_neq env ?r w1),
                          m_nreactors := m_nreactors net + 1\<rparr>)"
      have f7: "m_r net7 = m_r net" "m_nr net7 = m_nr net"
        by (simp_all add: net7_def verbose_log_fields)
      have unfold: "initialize_loop env t0 n net w = initialize_loop env t0 (n + 1) net7 w1"
        using True r q w1 "1.prems"(2)
        by (simp add: initialize_loop.simps [of env t0 n net] Let_def net7_def verbose_log_fields)
      have "\<exists>net' w'. initialize_loop env t0 (n + 1) net7 w1 = Inr (net', w')"
        using "1.IH"(1) [OF True r q w1 refl refl refl refl refl refl refl refl]
          "1.prems"(1,2,4) n1
        by (simp add: net7_def verbose_log_fields)
      with unfold show ?thesis by simp
    qed
  qed
qed

section \<open>Flow reactors must be used alone\<close>

text \<open>
  C4. With every registered reactor's own \<^verbatim>\<open>initialize\<close> succeeding: when more than
  one handle is registered and a qualifying one is a flow reactor, \<open>initialize\<close>
  fails with the error \<open>FlowReactors must be used alone.\<close> of
  \<open>ReactorNet::initialize\<close>; when at most one handle is registered, whatever its
  variant, the loop completes and \<open>initialize\<close> returns what the integrator's own
  initialisation returns, successfully when that succeeds.
\<close>

theorem initialize_flow_reactor_alone:
  assumes "m_nr net = int (length (m_r net))"
    and "\<forall>r\<in>set (m_r net). \<forall>w. \<exists>w'. Reactor_initialize env r t0 w = Inr w'"
  shows "(1 < m_nr net
          \<and> (\<exists>r\<in>set (m_r net). qualifies env r \<and> Reactor_type env r = FlowReactorType env) \<longrightarrow>
            initialize env t0 net w =
              Inl (CanteraError ''ReactorNet::initialize'' ''FlowReactors must be used alone.''))
       \<and> (m_nr net \<le> 1 \<longrightarrow>
            (\<exists>net1 w1.
               initialize env t0 net w =
                 (case Integrator_initialize env t0 (funcEval env net1) (m_integ net1) w1 of
                    Inl e \<Rightarrow> Inl e
                  | Inr (integ, w2) \<Rightarrow> Inr (net1\<lparr>m_integ := integ, m_init := True\<rparr>, w2))))"
proof (intro conjI impI)
  have f4: "m_r (initialize_reset net) = m_r net" "m_nr (initialize_reset net) = m_nr net"
    by (simp_all add: initialize_reset_fields)
  {
    assume "1 < m_nr net
          \<and> (\<exists>r\<in>set (m_r net). qualifies env r \<and> Reactor_type env r = FlowReactorType env)"
    with assms have "initialize_loop env t0 0 (initialize_reset net) w =
        Inl (CanteraError ''ReactorNet::initialize'' ''FlowReactors must be used alone.'')"
      by (intro initialize_loop_flow_fails) (simp_all add: f4)
    then show "initialize env t0 net w =
              Inl (CanteraError ''ReactorNet::initialize'' ''FlowReactors must be used alone.'')"
      by (simp add: initialize_def)
  }
  {
    assume "m_nr net \<le> 1"
    with assms have "\<exists>net5 w5. initialize_loop env t0 0 (initialize_reset net) w = Inr (net5, w5)"
      by (intro initialize_loop_alone_succeeds) (simp_all add: f4)
    then obtain net5 w5 where l: "initialize_loop env t0 0 (initialize_reset net) w = Inr (net5, w5)"
      by blast
    have "initialize env t0 net w =
            (case Integrator_initialize env t0 (funcEval env (initialize_integrator env net5))
                    (m_integ (initialize_integrator env net5)) w5 of
               Inl e \<Rightarrow> Inl e
             | Inr (integ, w2) \<Rightarrow>
                 Inr ((initialize_integrator env net5)\<lparr>m_integ := integ, m_init := True\<rparr>, w2))"
      by (simp add: initialize_def l Let_def)
    then show "\<exists>net1 w1.
               initialize env t0 net w =
                 (case Integrator_initialize env t0 (funcEval env net1) (m_integ net1) w1 of
                    Inl e \<Rightarrow> Inl e
                  | Inr (integ, w2) \<Rightarrow> Inr (net1\<lparr>m_integ := integ, m_init := True\<rparr>, w2))"
      by (intro exI)
  }
qed

theorem initialize_flow_reactor_alone_witness:
  "initialize demo_env 0 (registered demo_env [0, 2]) demo_world =
     Inl (CanteraError ''ReactorNet::initialize'' ''FlowReactors must be used alone.'')
   \<and> m_nr (registered demo_env [2]) \<le> 1 \<and> Reactor_type demo_env 2 = FlowReactorType demo_env
   \<and> (\<exists>net1 w1 net' w'.
         initialize demo_env 0 (registered demo_env [2]) demo_world =
           (case Integrator_initialize demo_env 0 (funcEval demo_env net1) (m_integ net1) w1 of
              Inl e \<Rightarrow> Inl e
            | Inr (integ, w2) \<Rightarrow> Inr (net1\<lparr>m_integ := integ, m_init := True\<rparr>, w2))
         \<and> initialize demo_env 0 (registered demo_env [2]) demo_world = Inr (net', w'))"
proof -
  have r: "Reactor_initialize demo_env = (\<lambda>r t0 w. Inr w)" by (simp add: demo_env_def)
  have two: "m_nr (registered demo_env [0, 2]) = int (length (m_r (registered demo_env [0, 2])))"
    "\<forall>r\<in>set (m_r (registered demo_env [0, 2])). \<forall>w. \<exists>w'. Reactor_initialize demo_env r 0 w = Inr w'"
    "1 < m_nr (registered demo_env [0, 2])"
    "\<exists>r\<in>set (m_r (registered demo_env [0, 2])).
        qualifies demo_env r \<and> Reactor_type demo_env r = FlowReactorType demo_env"
    by (simp_all add: r registered_def ReactorNet_new_def addReactor_def qualifies_def demo_env_def
        demo_type_def)
  have one: "m_nr (registered demo_env [2]) = int (length (m_r (registered demo_env [2])))"
    "\<forall>r\<in>set (m_r (registered demo_env [2])). \<forall>w. \<exists>w'. Reactor_initialize demo_env r 0 w = Inr w'"
    "m_nr (registered demo_env [2]) \<le> 1"
    "Reactor_type demo_env 2 = FlowReactorType demo_env"
    by (simp_all add: r registered_def ReactorNet_new_def addReactor_def demo_env_def demo_type_def)
  from initialize_flow_reactor_alone [OF two(1,2), of demo_world] two(3,4)
  have 1: "initialize demo_env 0 (registered demo_env [0, 2]) demo_world =
     Inl (CanteraError ''ReactorNet::initialize'' ''FlowReactors must be used alone.'')"
    by blast
  from initialize_flow_reactor_alone [OF one(1,2), of demo_world] one(3)
  obtain net1 w1 where 2: "initialize demo_env 0 (registered demo_env [2]) demo_world =
           (case Integrator_initialize demo_env 0 (funcEval demo_env net1) (m_integ net1) w1 of
              Inl e \<Rightarrow> Inl e
            | Inr (integ, w2) \<Rightarrow> Inr (net1\<lparr>m_integ := integ, m_init := True\<rparr>, w2))"
    by blast
  have "\<exists>x. initialize demo_env 0 (registered demo_env [2]) demo_world = Inr x"
    by (simp add: demo_defs net_defs loop_simps Let_def)
  then obtain net' w' where 3: "initialize demo_env 0 (registered demo_env [2]) demo_world = Inr (net', w')"
    by auto
  from 1 2 3 one(3,4) show ?thesis by blast
qed

section \<open>Initialising a second time\<close>

text \<open>
  C1 asks every \<open>initialize\<close> to reset the size table, the table of
  sensitivity-parameter counts and the total count of sensitivity parameters.
  Lines 29 to 31 reset \<^verbatim>\<open>m_nv\<close>, \<^verbatim>\<open>m_reactors\<close> and \<^verbatim>\<open>m_nreactors\<close> only. The code
  evaluated on one reactor with 4 variables and 2 sensitivity parameters,
  initialised twice: the reactor list has one entry, the two tables have two, and
  the total count of sensitivity parameters is 4.
\<close>

theorem initialize_twice_appends:
  "\<exists>net1 w1 net2 w2.
     initialize demo_env 0 (registered demo_env [1]) demo_world = Inr (net1, w1)
     \<and> m_reactors net1 = [1] \<and> m_size net1 = [4] \<and> m_nparams net1 = [2] \<and> m_ntotpar net1 = 2
     \<and> initialize demo_env 0 net1 w1 = Inr (net2, w2)
     \<and> m_reactors net2 = [1] \<and> m_size net2 = [4, 4] \<and> m_nparams net2 = [2, 2] \<and> m_ntotpar net2 = 4
     \<and> Reactor_nSensParams demo_env 1 w2 = 2 \<and> m_nv net2 = 4"
  by (simp add: demo_defs net_defs loop_simps Let_def)

section \<open>Gathering the state and scattering it back\<close>

lemma length_poke: "0 \<le> off \<Longrightarrow> nat off + length vs \<le> length b \<Longrightarrow> length (poke off vs b) = length b"
  by (simp add: poke_def)

lemma slice_poke_same: "nat off \<le> length b \<Longrightarrow> take (length vs) (drop (nat off) (poke off vs b)) = vs"
  by (simp add: poke_def)

lemma take_poke_before: "m \<le> nat off \<Longrightarrow> nat off \<le> length b \<Longrightarrow> take m (poke off vs b) = take m b"
  by (simp add: poke_def min_def)

lemma slice_poke_other:
  assumes "p + n \<le> nat off" and "nat off \<le> length b"
  shows "take n (drop p (poke off vs b)) = take n (drop p b)"
proof -
  have "take n (drop p xs) = drop p (take (p + n) xs)" for xs :: "real list"
    by (simp add: drop_take)
  with take_poke_before [OF assms] show ?thesis by simp
qed

lemma offset_of_mono:
  assumes "\<forall>i<k. 0 \<le> sizes ! i" and "k \<le> length sizes" and "j \<le> k"
  shows "i \<le> j \<Longrightarrow> offset_of sizes i \<le> offset_of sizes j"
  using assms(3)
proof (induction j)
  case 0
  then show ?case by simp
next
  case (Suc j)
  from Suc.prems assms have "offset_of sizes (Suc j) = offset_of sizes j + sizes ! j" and "0 \<le> sizes ! j"
    by (simp_all add: offset_of_Suc)
  with Suc show ?case by (cases "i = Suc j") simp_all
qed

lemma roundtrip_gather:
  fixes vs :: "nat \<Rightarrow> real list"
  assumes k: "k \<le> length sizes"
    and rt: "\<forall>i<k. state_roundtrip env (rs ! i) (sizes ! i) t0 w (vs i)"
    and off: "0 \<le> off" and fit: "nat off + nat (offset_of sizes k) \<le> length b0"
  shows "j \<le> k \<Longrightarrow>
         \<exists>B. fold (gather_at env rs sizes t0 off) [0..<j] (Inr (b0, w)) = Inr (B, w)
            \<and> length B = length b0
            \<and> (\<forall>i<j. take (nat (sizes ! i)) (drop (nat (off + offset_of sizes i)) B) = vs i)"
proof (induction j)
  case 0
  then show ?case by simp
next
  case (Suc j)
  then obtain B where g: "fold (gather_at env rs sizes t0 off) [0..<j] (Inr (b0, w)) = Inr (B, w)"
    and len: "length B = length b0"
    and sl: "\<forall>i<j. take (nat (sizes ! i)) (drop (nat (off + offset_of sizes i)) B) = vs i"
    by auto
  from rt have nonneg: "\<forall>i<k. 0 \<le> sizes ! i" by (simp add: state_roundtrip_def)
  from Suc.prems have jk: "j < k" by simp
  let ?o = "off + offset_of sizes j"
  have o0: "0 \<le> offset_of sizes j"
    using offset_of_mono [OF nonneg k, of j 0] jk by (simp add: offset_of_0)
  have oS: "offset_of sizes (Suc j) = offset_of sizes j + sizes ! j"
    using jk k by (simp add: offset_of_Suc)
  have oSk: "offset_of sizes (Suc j) \<le> offset_of sizes k"
    using offset_of_mono [OF nonneg k, of k "Suc j"] jk by simp
  from rt jk have rj: "state_roundtrip env (rs ! j) (sizes ! j) t0 w (vs j)" by simp
  then have nj: "0 \<le> sizes ! j" and lj: "length (vs j) = nat (sizes ! j)"
    by (simp_all add: state_roundtrip_def)
  have pos: "0 \<le> ?o" using off o0 by simp
  have fitj: "nat ?o + nat (sizes ! j) \<le> length B"
    using fit oS oSk off o0 nj len by linarith
  from rj pos fitj
  have step: "Reactor_getInitialConditions env (rs ! j) t0 (sizes ! j) (B, ?o) w = Inr (poke ?o (vs j) B, w)"
    unfolding state_roundtrip_def by blast
  let ?B = "poke ?o (vs j) B"
  have 1: "fold (gather_at env rs sizes t0 off) [0..<Suc j] (Inr (b0, w)) = Inr (?B, w)"
    using g step by (simp add: gather_at_def)
  have 2: "length ?B = length b0"
    using length_poke [OF pos, of "vs j" B] fitj lj len by simp
  have 3: "take (nat (sizes ! i)) (drop (nat (off + offset_of sizes i)) ?B) = vs i" if "i < Suc j" for i
  proof (cases "i = j")
    case True
    have "nat ?o \<le> length B" using fitj by simp
    from slice_poke_same [OF this, of "vs j"] True lj show ?thesis by simp
  next
    case False
    with that have ij: "i < j" by simp
    with jk nonneg have ni: "0 \<le> sizes ! i" by simp
    have oi: "offset_of sizes (Suc i) = offset_of sizes i + sizes ! i"
      using ij jk k by (simp add: offset_of_Suc)
    have "offset_of sizes (Suc i) \<le> offset_of sizes j"
      using offset_of_mono [OF nonneg k, of j "Suc i"] ij jk by simp
    moreover have "0 \<le> offset_of sizes i"
      using offset_of_mono [OF nonneg k, of i 0] ij jk by (simp add: offset_of_0)
    ultimately have "nat (off + offset_of sizes i) + nat (sizes ! i) \<le> nat ?o"
      using oi off ni by linarith
    moreover have "nat ?o \<le> length B" using fitj by simp
    ultimately have "take (nat (sizes ! i)) (drop (nat (off + offset_of sizes i)) ?B)
        = take (nat (sizes ! i)) (drop (nat (off + offset_of sizes i)) B)"
      by (rule slice_poke_other)
    with sl ij show ?thesis by simp
  qed
  from 1 2 3 show ?case by blast
qed

lemma roundtrip_scatter:
  assumes "\<forall>i\<in>set ns. Reactor_updateState env (rs ! i) (ptr_add y (offset_of sizes i)) w = Inr w"
  shows "fold (scatter_at env rs sizes y) ns (Inr w) = Inr w"
  using assms by (induction ns) (simp_all add: scatter_at_def)

text \<open>
  On a network whose tables cover its reactors, with a buffer that holds the whole
  state from the pointer on: given that each reactor, asked for the size recorded
  for it in the table, writes its initial local state of that size and that its own
  \<^verbatim>\<open>updateState\<close> from that state is the identity, \<open>getInitialConditions\<close> into the
  buffer returns with the world unchanged, and \<open>updateState\<close> from the same buffer
  immediately afterwards leaves the world unchanged. Where the recorded sizes are
  not the reactors' own, the premise fails and so does the round trip: see the last
  section.
\<close>

lemma gather_then_scatter_is_identity:
  assumes "tables_cover net"
    and "0 \<le> snd y"
    and "nat (snd y) + nat (offset_of (m_size net) (nat (m_nreactors net))) \<le> length (fst y)"
    and "\<forall>i<nat (m_nreactors net).
           \<exists>vs. state_roundtrip env (m_reactors net ! i) (m_size net ! i) t0 w vs"
  shows "\<exists>b. getInitialConditions env net t0 leny y w = Inr (b, w)
            \<and> updateState env net (b, snd y) w = Inr w"
proof -
  let ?k = "nat (m_nreactors net)"
  from assms(4) obtain vs where
    rt: "\<forall>i<?k. state_roundtrip env (m_reactors net ! i) (m_size net ! i) t0 w (vs i)"
    by metis
  from assms(1) have k: "?k \<le> length (m_size net)" by (simp add: tables_cover_def)
  from roundtrip_gather [OF k rt assms(2,3), of ?k]
  obtain B where g: "fold (gather_at env (m_reactors net) (m_size net) t0 (snd y)) [0..<?k] (Inr (fst y, w))
        = Inr (B, w)"
    and sl: "\<forall>i<?k. take (nat (m_size net ! i)) (drop (nat (snd y + offset_of (m_size net) i)) B) = vs i"
    by auto
  have gather: "getInitialConditions env net t0 leny y w = Inr (B, w)"
    using g by (simp add: getInitialConditions_gather_spec [OF assms(1)] gather_spec_def)
  from rt have nonneg: "\<forall>i<?k. 0 \<le> m_size net ! i" by (simp add: state_roundtrip_def)
  have "Reactor_updateState env (m_reactors net ! i) (ptr_add (B, snd y) (offset_of (m_size net) i)) w = Inr w"
    if "i < ?k" for i
  proof -
    have "0 \<le> offset_of (m_size net) i"
      using offset_of_mono [OF nonneg k, of i 0] that by (simp add: offset_of_0)
    with assms(2) have "0 \<le> snd y + offset_of (m_size net) i" by simp
    moreover from sl that
    have "take (nat (m_size net ! i)) (drop (nat (snd y + offset_of (m_size net) i)) B) = vs i" by simp
    moreover from rt that have "state_roundtrip env (m_reactors net ! i) (m_size net ! i) t0 w (vs i)"
      by simp
    ultimately show ?thesis
      unfolding state_roundtrip_def ptr_add_def by simp
  qed
  then have "fold (scatter_at env (m_reactors net) (m_size net) (B, snd y)) [0..<?k] (Inr w) = Inr w"
    by (intro roundtrip_scatter) simp
  then have "updateState env net (B, snd y) w = Inr w"
    by (simp add: updateState_scatter_spec [OF assms(1)] scatter_spec_def)
  with gather show ?thesis by blast
qed


lemma demo_state_roundtrip:
  "state_roundtrip demo_env r (int (length (w ! r))) t0 w (w ! r)"
  by (simp add: state_roundtrip_def demo_env_def demo_getInitialConditions_def demo_updateState_def)

lemma gather_then_scatter_is_identity_witness:
  "getInitialConditions demo_env demo_net 0 6 ([0, 0, 0, 0, 0, 0], 0) demo_world
     = Inr ([1, 2, 3, 4, 5, 6], demo_world)
   \<and> updateState demo_env demo_net ([1, 2, 3, 4, 5, 6], 0) demo_world = Inr demo_world"
proof -
  have c: "tables_cover demo_net" by (simp add: tables_cover_def demo_net_eq)
  have fit: "nat (snd ([0, 0, 0, 0, 0, 0 :: real], 0 :: int))
               + nat (offset_of (m_size demo_net) (nat (m_nreactors demo_net)))
             \<le> length (fst ([0, 0, 0, 0, 0, 0 :: real], 0 :: int))"
    by (simp add: demo_net_eq offset_of_def)
  have rt: "\<forall>i<nat (m_nreactors demo_net).
      \<exists>vs. state_roundtrip demo_env (m_reactors demo_net ! i) (m_size demo_net ! i) 0 demo_world vs"
  proof (intro allI impI)
    fix i
    assume "i < nat (m_nreactors demo_net)"
    then have "i = 0 \<or> i = 1" by (auto simp: demo_net_eq)
    then show "\<exists>vs. state_roundtrip demo_env (m_reactors demo_net ! i) (m_size demo_net ! i) 0 demo_world vs"
      using demo_state_roundtrip [of 0 demo_world 0] demo_state_roundtrip [of 1 demo_world 0]
      by (auto simp: demo_net_eq demo_world_def)
  qed
  from gather_then_scatter_is_identity [OF c _ fit rt, of 6]
  obtain b where g: "getInitialConditions demo_env demo_net 0 6 ([0, 0, 0, 0, 0, 0], 0) demo_world
                      = Inr (b, demo_world)"
    and u: "updateState demo_env demo_net (b, 0) demo_world = Inr demo_world"
    by auto
  have "getInitialConditions demo_env demo_net 0 6 ([0, 0, 0, 0, 0, 0], 0) demo_world
     = Inr ([1, 2, 3, 4, 5, 6], demo_world)"
    by (simp add: demo_net_eq demo_defs getInitialConditions_def vec_at_def ptr_add_def loop_simps)
  with g u show ?thesis by simp
qed

section \<open>Advancing and stepping\<close>





section \<open>Offsets after a network has grown and is initialised again\<close>

lemmas probe_defs = probe_env_def probe_neq_def

text \<open>
  C3 has \<open>eval\<close> call reactor \<open>i\<close>'s \<^verbatim>\<open>evalEqs\<close> at the sum of the sizes of the reactors
  before \<open>i\<close>, with \<open>p\<close> at the sum of their sensitivity-parameter counts. The loop
  takes the offsets from the first entries of the tables, and \<open>initialize\<close> does not
  clear the tables (the defect of C1). The code evaluated with the recording
  collaborators: reactor 0 (2 variables, 1 parameter) is registered and the network
  initialised; the reactors 1 (4 variables, 2 parameters) and 2 are registered and
  the network is initialised again. The total equation count is 9, as it should be,
  but the tables start with the stale entry of reactor 0, and \<open>eval\<close> calls the third
  reactor's \<^verbatim>\<open>evalEqs\<close> with \<open>y\<close> and \<open>ydot\<close> at offset 4 and \<open>p\<close> at offset 2, where the
  sizes 2 and 4 and the counts 1 and 2 require 6 and 3.
\<close>

theorem eval_after_regrowth:
  "\<exists>net1 w1 net2 w2.
     initialize probe_env 0 (registered probe_env [0]) [] = Inr (net1, w1)
     \<and> initialize probe_env 0 (addReactor 2 (addReactor 1 net1)) w1 = Inr (net2, w2)
     \<and> m_reactors net2 = [0, 1, 2] \<and> m_size net2 = [2, 2, 4, 3] \<and> m_nparams net2 = [1, 1, 2, 3]
     \<and> m_nv net2 = 9
     \<and> Reactor_neq probe_env 0 w2 = 2 \<and> Reactor_neq probe_env 1 w2 = 4
     \<and> Reactor_nSensParams probe_env 0 w2 = 1 \<and> Reactor_nSensParams probe_env 1 w2 = 2
     \<and> eval probe_env net2 0 ([], 0) ([], 0) ([], 0) w2 =
           Inr ([], [CallUpdateState 0 0, CallUpdateState 1 2, CallUpdateState 2 4,
                     CallEvalEqs 0 0 0 0, CallEvalEqs 1 2 2 1, CallEvalEqs 2 4 4 2])"
  by (simp add: probe_defs net_defs loop_simps Let_def)

text \<open>
  C8 has \<open>globalComponentIndex name r\<close> return the sum of the local sizes of the
  reactors \<open>0..r-1\<close> plus reactor \<open>r\<close>'s local index of the name. The loop sums the
  first \<open>r\<close> entries of the size table, which \<open>initialize\<close> does not clear (the defect
  of C1). The code evaluated: reactor 0 (2 variables) is registered and the network
  initialised; the reactors 1 (4 variables) and 4 are registered and the network is
  initialised again. For a name at local index 1 of the third reactor the member
  returns 5, where the sizes 2 and 4 require 7.
\<close>

theorem globalComponentIndex_after_regrowth:
  "\<exists>net1 w1 net2 w2.
     initialize demo_env 0 (registered demo_env [0]) demo_world = Inr (net1, w1)
     \<and> initialize demo_env 0 (addReactor 4 (addReactor 1 net1)) w1 = Inr (net2, w2)
     \<and> m_reactors net2 = [0, 1, 4] \<and> m_size net2 = [2, 2, 4, 2]
     \<and> Reactor_neq demo_env 0 w2 = 2 \<and> Reactor_neq demo_env 1 w2 = 4
     \<and> Reactor_componentIndex demo_env 4 ''X'' w2 = Inr 1
     \<and> globalComponentIndex demo_env net2 ''X'' 2 w2 = Inr 5"
  by (simp add: demo_defs net_defs globalComponentIndex_def loop_simps Let_def)

text \<open>
  C9 has \<open>getInitialConditions\<close> followed by \<open>updateState\<close> on the same buffer leave
  every reactor's state unchanged on every initialised network, given that each
  reactor's own \<^verbatim>\<open>updateState\<close> from its own \<^verbatim>\<open>getInitialConditions\<close> output is the
  identity. Both members take the offsets from the first entries of the size table,
  which \<open>initialize\<close> does not clear (the defect of C1). The code evaluated on the
  same network as for C8, with a buffer of the 8 equations: each of the three
  reactors round-trips on its own, but the third reactor is given offset 4, inside
  the state of the second, whose state \<open>[3, 4, 5, 6]\<close> the round trip turns into
  \<open>[3, 4, 11, 12]\<close>.
\<close>

theorem roundtrip_after_regrowth:
  "\<exists>net1 w1 net2.
     initialize demo_env 0 (registered demo_env [0]) demo_world = Inr (net1, w1)
     \<and> initialize demo_env 0 (addReactor 4 (addReactor 1 net1)) w1 = Inr (net2, demo_world)
     \<and> m_init net2 \<and> m_reactors net2 = [0, 1, 4] \<and> m_nv net2 = 8
     \<and> Reactor_getInitialConditions demo_env 0 0 2 ([0, 0], 0) demo_world = Inr ([1, 2], demo_world)
     \<and> Reactor_updateState demo_env 0 ([1, 2], 0) demo_world = Inr demo_world
     \<and> Reactor_getInitialConditions demo_env 1 0 4 ([0, 0, 0, 0], 0) demo_world
          = Inr ([3, 4, 5, 6], demo_world)
     \<and> Reactor_updateState demo_env 1 ([3, 4, 5, 6], 0) demo_world = Inr demo_world
     \<and> Reactor_getInitialConditions demo_env 4 0 2 ([0, 0], 0) demo_world = Inr ([11, 12], demo_world)
     \<and> Reactor_updateState demo_env 4 ([11, 12], 0) demo_world = Inr demo_world
     \<and> getInitialConditions demo_env net2 0 8 ([0, 0, 0, 0, 0, 0, 0, 0], 0) demo_world
          = Inr ([1, 2, 3, 4, 11, 12, 0, 0], demo_world)
     \<and> updateState demo_env net2 ([1, 2, 3, 4, 11, 12, 0, 0], 0) demo_world
          = Inr [[1, 2], [3, 4, 11, 12], [7, 8, 9], [10], [11, 12]]"
  by (simp add: demo_defs net_defs loop_simps Let_def)

end
